theory Spec2Isabelle
  imports Complex_Main
begin

section \<open>Data model\<close>

text \<open>
  The script \<^verbatim>\<open>classify_model.py\<close> fine-tunes a pretrained encoder for sentence
  classification. Integer tensors of shape (batch size, sequence length) are lists of
  rows; float tensors are lists of rows of reals (Python floats are idealised as reals,
  the one float that is not a number, NaN, is kept apart in \<open>pyfloat\<close>).
\<close>

type_synonym tensor = "int list list"

type_synonym matrix = "real list list"

type_synonym path = string

datatype pyfloat = NaN | Fin real

datatype error = FileNotFoundError path | ValueError | IndexError | StopIteration | RuntimeError

text \<open>A batch as the data loader yields it: a mapping with four keys.\<close>

record batch =
  input_ids :: tensor
  token_type_ids :: tensor
  attention_mask :: tensor
  labels :: "nat list"

text \<open>
  The state dict of \<open>SentenceClassifyModel\<close>: the encoder's weights (owned by the
  pretrained library, a type parameter here) and the weight matrix (classes rows of
  hidden size entries) and bias (classes entries) of the linear classifier.
\<close>

record 'e state_dict =
  bert_weights :: 'e
  classifier_weight :: matrix
  classifier_bias :: "real list"

text \<open>Exceptions propagate: the first failing call ends the computation.\<close>

definition and_then :: "error + 'a \<Rightarrow> ('a \<Rightarrow> error + 'b) \<Rightarrow> error + 'b" where
  "and_then r f = (case r of Inl e \<Rightarrow> Inl e | Inr x \<Rightarrow> f x)"

section \<open>Evaluation metric\<close>

text \<open>
  \<open>torch.argmax(y_pred, dim=1)\<close>: for each row the index of its largest entry, the first
  one among equal entries; reducing over a dimension of size zero raises.
\<close>

fun argmax_from :: "real \<Rightarrow> nat \<Rightarrow> nat \<Rightarrow> real list \<Rightarrow> nat" where
  "argmax_from best bi i [] = bi"
| "argmax_from best bi i (x # xs) =
     (if best < x then argmax_from x i (Suc i) xs else argmax_from best bi (Suc i) xs)"

definition argmax :: "real list \<Rightarrow> error + nat" where
  "argmax row = (case row of [] \<Rightarrow> Inl IndexError | x # xs \<Rightarrow> Inr (argmax_from x 0 1 xs))"

fun argmax_dim1 :: "matrix \<Rightarrow> error + nat list" where
  "argmax_dim1 [] = Inr []"
| "argmax_dim1 (row # rows) =
     and_then (argmax row) (\<lambda>i. and_then (argmax_dim1 rows) (\<lambda>is. Inr (i # is)))"

text \<open>
  \<open>sklearn.metrics.accuracy_score\<close>: the fraction of positions where the two label
  sequences agree. Sequences of different lengths raise \<open>ValueError\<close>; on empty
  sequences the mean of no scores is NaN.
\<close>

definition correct :: "nat list \<Rightarrow> nat list \<Rightarrow> nat" where
  "correct y_true y_pred = length (filter (\<lambda>(t, p). t = p) (zip y_true y_pred))"

definition accuracy_score :: "nat list \<Rightarrow> nat list \<Rightarrow> error + pyfloat" where
  "accuracy_score y_true y_pred =
     (if length y_true \<noteq> length y_pred then Inl ValueError
      else if y_true = [] then Inr NaN
      else Inr (Fin (real (correct y_true y_pred) / real (length y_true))))"

text \<open>\<open>ModelTrainer.model_evaluate\<close> (lines 142-147).\<close>

definition model_evaluate :: "nat list \<Rightarrow> matrix \<Rightarrow> error + pyfloat" where
  "model_evaluate y_true y_pred =
     (let np_y_true = y_true
      in and_then (argmax_dim1 y_pred) (\<lambda>np_y_pred. accuracy_score np_y_true np_y_pred))"

section \<open>Classifier head\<close>

text \<open>
  \<open>nn.Linear\<close>: every row \<open>x\<close> of the input becomes the row of the \<open>w \<bullet> x + b\<close>, one entry
  for each row \<open>w\<close> of the weight matrix.
\<close>

definition dot :: "real list \<Rightarrow> real list \<Rightarrow> real" where
  "dot w x = sum_list (map (\<lambda>(a, b). a * b) (zip w x))"

definition linear :: "matrix \<Rightarrow> real list \<Rightarrow> matrix \<Rightarrow> matrix" where
  "linear W b X = map (\<lambda>x. map (\<lambda>(w, c). dot w x + c) (zip W b)) X"

text \<open>
  \<open>nn.Dropout(p)\<close>: the identity in evaluation mode; in training mode every entry is
  zeroed where the random mask says so and the others are scaled by \<open>1 / (1 - p)\<close>. The
  random draw is the argument \<open>zeroed\<close>.
\<close>

definition dropout :: "real \<Rightarrow> bool \<Rightarrow> bool list list \<Rightarrow> matrix \<Rightarrow> matrix" where
  "dropout p training zeroed X =
     (if training
      then map (\<lambda>(ms, xs). map (\<lambda>(m, x). if m then 0 else x / (1 - p)) (zip ms xs)) (zip zeroed X)
      else X)"

text \<open>
  The module \<open>SentenceClassifyModel\<close> (lines 34-46). Its encoder \<open>BertModel\<close> belongs to
  the pretrained library and is a parameter: from its weights, the module's mode and
  the three inputs it gives the sequence output and the pooled output.
\<close>

type_synonym 'e encoder =
  "'e \<Rightarrow> bool \<Rightarrow> tensor \<Rightarrow> tensor \<Rightarrow> tensor option \<Rightarrow> matrix list \<times> matrix"

definition forward ::
  "'e encoder \<Rightarrow> 'e state_dict \<Rightarrow> bool \<Rightarrow> tensor \<Rightarrow> tensor \<Rightarrow> tensor option \<Rightarrow> matrix" where
  "forward bert sd training ids am segs =
     (let outputs = bert (bert_weights sd) training ids am segs;
          out_pool = snd outputs;
          logit = linear (classifier_weight sd) (classifier_bias sd) out_pool
      in logit)"

text \<open>
  The forward pass in the words of the specification: encoder, pooled output, dropout
  (with the probability \<open>hidden_dropout_prob\<close> of the configuration, active only in
  training mode), linear projection.
\<close>

definition forward_spec ::
  "'e encoder \<Rightarrow> real \<Rightarrow> bool list list \<Rightarrow> 'e state_dict \<Rightarrow> bool \<Rightarrow> tensor \<Rightarrow> tensor \<Rightarrow>
     tensor option \<Rightarrow> matrix" where
  "forward_spec bert hidden_dropout_prob zeroed sd training ids am segs =
     (let outputs = bert (bert_weights sd) training ids am segs;
          out_pool = snd outputs;
          dropped = dropout hidden_dropout_prob training zeroed out_pool;
          logit = linear (classifier_weight sd) (classifier_bias sd) dropped
      in logit)"

section \<open>Learning-rate schedule\<close>

text \<open>
  The multiplier of \<open>transformers.get_cosine_schedule_with_warmup\<close> with its default
  \<open>num_cycles = 0.5\<close>, as a function of the number of scheduler steps taken: linear from
  0 during the warmup, then half a cosine wave down to 0.
\<close>

definition lr_lambda :: "nat \<Rightarrow> nat \<Rightarrow> nat \<Rightarrow> real" where
  "lr_lambda num_warmup num_training current_step =
     (if current_step < num_warmup
      then real current_step / real (max 1 num_warmup)
      else (let progress = real (current_step - num_warmup) / real (max 1 (num_training - num_warmup))
            in max 0 (1 / 2 * (1 + cos (pi * (1 / 2) * 2 * progress)))))"

text \<open>The constants of line 72: \<open>AdamW(..., lr=2e-5, weight_decay=1e-4)\<close>.\<close>

definition base_lr :: real where
  "base_lr = 2 / 100000"

definition weight_decay :: real where
  "weight_decay = 1 / 10000"

section \<open>Trainer state\<close>

text \<open>
  What the deep-learning framework supplies, as parameters: the encoder, the value of
  the cross-entropy loss, the gradient of that loss with respect to the parameters
  (autograd), the empty gradient buffer and the accumulation into a buffer, and the
  optimizer AdamW (its fresh state, and one update from the learning rate, the weight
  decay, its state, the gradient buffers and the parameters). Failures inside the
  framework (shapes, memory) are not modelled.
\<close>

record ('e, 'g, 'o) torch =
  BertModel :: "'e encoder"
  CrossEntropyLoss :: "matrix \<Rightarrow> nat list \<Rightarrow> real"
  autograd :: "'e state_dict \<Rightarrow> bool \<Rightarrow> tensor \<Rightarrow> tensor \<Rightarrow> tensor option \<Rightarrow> nat list \<Rightarrow> 'g"
  no_grads :: 'g
  accumulate :: "'g \<Rightarrow> 'g \<Rightarrow> 'g"
  AdamW_init :: "'e state_dict \<Rightarrow> 'o"
  AdamW_step :: "real \<Rightarrow> real \<Rightarrow> 'o \<Rightarrow> 'g \<Rightarrow> 'e state_dict \<Rightarrow> 'o \<times> 'e state_dict"

text \<open>One row of \<open>sklearn.metrics.classification_report\<close>.\<close>

record report_row =
  class_label :: nat
  precision :: real
  recall :: real
  f1_score :: real
  support :: nat

text \<open>
  The observable actions of a run, in the order they happen: calls of the model (with
  the module's mode, whether gradients are recorded, and the three arguments), the
  stages of a training step, checkpoint files written and read, scalars sent to the
  telemetry writer (tag, value, global step) and the two reports of the test phase.
  Console progress lines and timing are not modelled.
\<close>

datatype event =
    Forward bool bool tensor tensor "tensor option"
  | Loss
  | ZeroGrad
  | Backward
  | OptimizerStep
  | SchedulerStep
  | Save path
  | Load path
  | AddScalar string pyfloat nat
  | PrintTestAccuracy pyfloat
  | PrintReport "report_row list"

text \<open>
  The state of a run: the model (parameters, mode, gradient buffers), the attributes of
  \<open>ModelTrainer\<close>, the local variables of \<open>model_train\<close> (optimizer, scheduler, running
  sums), and the process environment (the global gradient switch, the checkpoint files,
  the actions so far). The training loader shuffles: \<open>train_loader i\<close> is the sequence
  of batches of its \<open>i\<close>-th pass.
\<close>

record ('e, 'g, 'o) trainer =
  model :: "'e state_dict"
  training :: bool
  grads :: 'g
  epochs :: nat
  best_acc :: pyfloat
  train_loader :: "nat \<Rightarrow> batch list"
  valid_loader :: "batch list"
  test_loader :: "batch list"
  steps :: nat
  optimizer :: 'o
  lr :: real
  num_warmup_steps :: nat
  num_training_steps :: nat
  last_epoch :: nat
  train_loss_sum :: real
  train_accuracy :: pyfloat
  batch_index :: nat
  grad_enabled :: bool
  files :: "path \<rightharpoonup> 'e state_dict"
  trace :: "event list"

definition best_model_path :: path where
  "best_model_path = ''model/best_model.pth''"

definition most_model_path :: path where
  "most_model_path = ''model/most_model.pth''"

definition emit :: "event \<Rightarrow> ('e, 'g, 'o) trainer \<Rightarrow> ('e, 'g, 'o) trainer" where
  "emit e st = st\<lparr>trace := trace st @ [e]\<rparr>"

text \<open>
  Float arithmetic of the running accuracy: NaN absorbs. A comparison with NaN is false.
\<close>

fun float_add :: "pyfloat \<Rightarrow> pyfloat \<Rightarrow> pyfloat" where
  "float_add (Fin a) (Fin b) = Fin (a + b)"
| "float_add _ _ = NaN"

fun float_div :: "pyfloat \<Rightarrow> nat \<Rightarrow> pyfloat" where
  "float_div (Fin a) n = Fin (a / real n)"
| "float_div NaN n = NaN"

fun float_gt :: "pyfloat \<Rightarrow> pyfloat \<Rightarrow> bool" where
  "float_gt (Fin a) (Fin b) = (a > b)"
| "float_gt _ _ = False"

fun float_le :: "pyfloat \<Rightarrow> pyfloat \<Rightarrow> bool" where
  "float_le (Fin a) (Fin b) = (a \<le> b)"
| "float_le _ _ = False"

section \<open>Framework operations on the state\<close>

text \<open>\<open>self.model(input_ids=..., attention_mask=...)\<close>: the module's \<open>forward\<close>.\<close>

definition call_model ::
  "('e, 'g, 'o) torch \<Rightarrow> tensor \<Rightarrow> tensor \<Rightarrow> tensor option \<Rightarrow> ('e, 'g, 'o) trainer \<Rightarrow>
     matrix \<times> ('e, 'g, 'o) trainer" where
  "call_model fw ids am segs st =
     (forward (BertModel fw) (model st) (training st) ids am segs,
      emit (Forward (training st) (grad_enabled st) ids am segs) st)"

definition zero_grad :: "('e, 'g, 'o) torch \<Rightarrow> ('e, 'g, 'o) trainer \<Rightarrow> ('e, 'g, 'o) trainer" where
  "zero_grad fw st = emit ZeroGrad (st\<lparr>grads := no_grads fw\<rparr>)"

text \<open>
  \<open>loss.backward()\<close> adds the gradient of the loss to the buffers. The loss of a forward
  pass made while gradients were switched off has no graph, and the call raises; within
  a training step the switch, the parameters and the mode are those of the forward pass.
\<close>

definition backward ::
  "('e, 'g, 'o) torch \<Rightarrow> tensor \<Rightarrow> tensor \<Rightarrow> tensor option \<Rightarrow> nat list \<Rightarrow> ('e, 'g, 'o) trainer \<Rightarrow>
     error + ('e, 'g, 'o) trainer" where
  "backward fw ids am segs true_labels st =
     (if grad_enabled st
      then Inr (emit Backward
             (st\<lparr>grads := accumulate fw (grads st)
                    (autograd fw (model st) (training st) ids am segs true_labels)\<rparr>))
      else Inl RuntimeError)"

definition optimizer_step :: "('e, 'g, 'o) torch \<Rightarrow> ('e, 'g, 'o) trainer \<Rightarrow> ('e, 'g, 'o) trainer" where
  "optimizer_step fw st =
     (let (opt, sd) = AdamW_step fw (lr st) weight_decay (optimizer st) (grads st) (model st)
      in emit OptimizerStep (st\<lparr>optimizer := opt, model := sd\<rparr>))"

text \<open>\<open>LambdaLR.step\<close>: count the step and set the optimizer's learning rate.\<close>

definition scheduler_step :: "('e, 'g, 'o) trainer \<Rightarrow> ('e, 'g, 'o) trainer" where
  "scheduler_step st =
     (let n = last_epoch st + 1
      in emit SchedulerStep
           (st\<lparr>last_epoch := n,
               lr := base_lr * lr_lambda (num_warmup_steps st) (num_training_steps st) n\<rparr>))"

text \<open>
  \<open>get_cosine_schedule_with_warmup\<close>: the constructor of \<open>LambdaLR\<close> already sets
  the learning rate for step 0.
\<close>

definition get_cosine_schedule_with_warmup ::
  "nat \<Rightarrow> nat \<Rightarrow> ('e, 'g, 'o) trainer \<Rightarrow> ('e, 'g, 'o) trainer" where
  "get_cosine_schedule_with_warmup n_warmup n_training st =
     st\<lparr>num_warmup_steps := n_warmup, num_training_steps := n_training, last_epoch := 0,
        lr := base_lr * lr_lambda n_warmup n_training 0\<rparr>"

text \<open>
  \<open>torch.save\<close> overwrites the file (the directory \<open>model/\<close> is taken to exist);
  \<open>torch.load\<close> of a file that does not exist raises.
\<close>

definition torch_save :: "path \<Rightarrow> ('e, 'g, 'o) trainer \<Rightarrow> ('e, 'g, 'o) trainer" where
  "torch_save p st = emit (Save p) (st\<lparr>files := (files st)(p \<mapsto> model st)\<rparr>)"

definition torch_load ::
  "path \<Rightarrow> ('e, 'g, 'o) trainer \<Rightarrow> error + 'e state_dict \<times> ('e, 'g, 'o) trainer" where
  "torch_load p st =
     (case files st p of
        None \<Rightarrow> Inl (FileNotFoundError p)
      | Some sd \<Rightarrow> Inr (sd, emit (Load p) st))"

section \<open>Classification report\<close>

text \<open>
  The per-class rows of \<open>sklearn.metrics.classification_report\<close>, as the closing comment
  of the script describes them: precision TP / (TP + FP), recall TP / (TP + FN), F1 their
  harmonic mean, support the number of examples of the class; one row for each label
  that occurs, in increasing order. A quotient with denominator zero is reported as 0.
  The summary rows (accuracy and the averages) are left out.
\<close>

definition hits :: "nat \<Rightarrow> nat list \<Rightarrow> nat list \<Rightarrow> nat" where
  "hits c y_true y_pred = length (filter (\<lambda>(t, p). t = c \<and> p = c) (zip y_true y_pred))"

definition ratio :: "nat \<Rightarrow> nat \<Rightarrow> real" where
  "ratio a b = (if b = 0 then 0 else real a / real b)"

definition report_for :: "nat list \<Rightarrow> nat list \<Rightarrow> nat \<Rightarrow> report_row" where
  "report_for y_true y_pred c =
     (let tp = hits c y_true y_pred;
          p = ratio tp (count_list y_pred c);
          r = ratio tp (count_list y_true c)
      in \<lparr>class_label = c, precision = p, recall = r,
          f1_score = (if p + r = 0 then 0 else 2 * p * r / (p + r)),
          support = count_list y_true c\<rparr>)"

definition classification_report :: "nat list \<Rightarrow> nat list \<Rightarrow> report_row list" where
  "classification_report y_true y_pred =
     map (report_for y_true y_pred) (sort (remdups (y_true @ y_pred)))"

section \<open>The trainer\<close>

text \<open>
  The loop shared by \<open>model_valid\<close> (lines 133-139) and \<open>model_test\<close> (lines 154-160):
  every batch goes through the model once, its labels and the argmax of its logits are
  appended to the two lists.
\<close>

fun predict_batches ::
  "('e, 'g, 'o) torch \<Rightarrow> batch list \<Rightarrow> nat list \<Rightarrow> nat list \<Rightarrow> ('e, 'g, 'o) trainer \<Rightarrow>
     error + (nat list \<times> nat list) \<times> ('e, 'g, 'o) trainer" where
  "predict_batches fw [] true_labels pred_labels st = Inr ((true_labels, pred_labels), st)"
| "predict_batches fw (b # bs) true_labels pred_labels st =
     (let ids = input_ids b;
          am = attention_mask b;
          y_true = labels b;
          (y_pred, st) = call_model fw ids am None st
      in and_then (argmax_dim1 y_pred)
           (\<lambda>p. predict_batches fw bs (true_labels @ y_true) (pred_labels @ p) st))"

text \<open>
  \<open>model_valid\<close> (lines 128-140). \<open>torch.no_grad()\<close> switches gradient recording off for
  its block and restores the previous setting afterwards.
\<close>

definition model_valid ::
  "('e, 'g, 'o) torch \<Rightarrow> batch list \<Rightarrow> ('e, 'g, 'o) trainer \<Rightarrow>
     error + pyfloat \<times> ('e, 'g, 'o) trainer" where
  "model_valid fw data_loader st =
     (let st = st\<lparr>training := False\<rparr>;
          prev = grad_enabled st;
          st = st\<lparr>grad_enabled := False\<rparr>
      in and_then (predict_batches fw data_loader [] [] st)
           (\<lambda>((true_labels, pred_labels), st).
              let st = st\<lparr>grad_enabled := prev\<rparr>
              in and_then (accuracy_score true_labels pred_labels) (\<lambda>acc. Inr (acc, st))))"

text \<open>
  The body of the loop over the training batches (lines 85-113). The segment ids are
  read from the batch but the model is called without them.
\<close>

definition train_step ::
  "('e, 'g, 'o) torch \<Rightarrow> nat \<Rightarrow> batch \<Rightarrow> ('e, 'g, 'o) trainer \<Rightarrow> error + ('e, 'g, 'o) trainer" where
  "train_step fw epoch_index b st =
     (let st = st\<lparr>batch_index := batch_index st + 1\<rparr>;
          ids = input_ids b;
          segs = token_type_ids b;
          am = attention_mask b;
          true_labels = labels b;
          (pred_labels, st) = call_model fw ids am None st;
          loss = CrossEntropyLoss fw pred_labels true_labels;
          st = emit Loss st;
          st = zero_grad fw st
      in and_then (backward fw ids am None true_labels st)
           (\<lambda>st. let st = optimizer_step fw st;
                     st = scheduler_step st;
                     st = st\<lparr>train_loss_sum := train_loss_sum st + loss\<rparr>
                 in and_then (model_evaluate true_labels pred_labels)
                      (\<lambda>acc. let st = st\<lparr>train_accuracy := float_add (train_accuracy st) acc\<rparr>;
                                global_step = (epoch_index - 1) * steps st + batch_index st;
                                st = emit (AddScalar ''loss''
                                       (Fin (train_loss_sum st / real (batch_index st))) global_step) st;
                                st = emit (AddScalar ''training accuracy''
                                       (float_div (train_accuracy st) (batch_index st)) global_step) st;
                                st = emit (AddScalar ''learning rate'' (Fin (lr st)) global_step) st
                            in Inr st)))"

fun train_batches ::
  "('e, 'g, 'o) torch \<Rightarrow> nat \<Rightarrow> batch list \<Rightarrow> ('e, 'g, 'o) trainer \<Rightarrow> error + ('e, 'g, 'o) trainer" where
  "train_batches fw epoch_index [] st = Inr st"
| "train_batches fw epoch_index (b # bs) st =
     and_then (train_step fw epoch_index b st) (train_batches fw epoch_index bs)"

text \<open>The end of an epoch (lines 121-124), given the validation accuracy.\<close>

definition checkpoint :: "pyfloat \<Rightarrow> ('e, 'g, 'o) trainer \<Rightarrow> ('e, 'g, 'o) trainer" where
  "checkpoint acc st =
     (let st = (if float_gt acc (best_acc st)
                then torch_save best_model_path (st\<lparr>best_acc := acc\<rparr>)
                else st)
      in torch_save most_model_path st)"

text \<open>One iteration of the loop over the epochs (lines 77-126), \<open>i\<close> counting from 0.\<close>

definition train_epoch ::
  "('e, 'g, 'o) torch \<Rightarrow> nat \<Rightarrow> ('e, 'g, 'o) trainer \<Rightarrow> error + ('e, 'g, 'o) trainer" where
  "train_epoch fw i st =
     (let st = st\<lparr>training := True\<rparr>;
          epoch_index = i + 1;
          st = st\<lparr>train_loss_sum := 0, train_accuracy := Fin 0, batch_index := 0\<rparr>
      in and_then (train_batches fw epoch_index (train_loader st i) st)
           (\<lambda>st. and_then (model_valid fw (valid_loader st) st)
              (\<lambda>(acc, st). let st = emit (AddScalar ''valid accuracy'' acc epoch_index) st
                            in Inr (checkpoint acc st))))"

fun epoch_loop ::
  "('e, 'g, 'o) torch \<Rightarrow> nat list \<Rightarrow> ('e, 'g, 'o) trainer \<Rightarrow> error + ('e, 'g, 'o) trainer" where
  "epoch_loop fw [] st = Inr st"
| "epoch_loop fw (i # is) st = and_then (train_epoch fw i st) (epoch_loop fw is)"

text \<open>The setup of \<open>model_train\<close> (lines 72-75): optimizer and schedule.\<close>

definition train_setup :: "('e, 'g, 'o) torch \<Rightarrow> ('e, 'g, 'o) trainer \<Rightarrow> ('e, 'g, 'o) trainer" where
  "train_setup fw st =
     (let st = st\<lparr>optimizer := AdamW_init fw (model st), lr := base_lr\<rparr>
      in get_cosine_schedule_with_warmup (steps st) (epochs st * steps st) st)"

definition model_train ::
  "('e, 'g, 'o) torch \<Rightarrow> ('e, 'g, 'o) trainer \<Rightarrow> error + ('e, 'g, 'o) trainer" where
  "model_train fw st = epoch_loop fw [0..<epochs st] (train_setup fw st)"

text \<open>\<open>model_test\<close> (lines 149-162).\<close>

definition model_test ::
  "('e, 'g, 'o) torch \<Rightarrow> ('e, 'g, 'o) trainer \<Rightarrow> error + ('e, 'g, 'o) trainer" where
  "model_test fw st =
     and_then (torch_load best_model_path st)
       (\<lambda>(sd, st).
          let st = st\<lparr>model := sd\<rparr>;
              st = st\<lparr>training := False\<rparr>;
              prev = grad_enabled st;
              st = st\<lparr>grad_enabled := False\<rparr>
          in and_then (predict_batches fw (test_loader st) [] [] st)
               (\<lambda>((true_labels, pred_labels), st).
                  let st = st\<lparr>grad_enabled := prev\<rparr>
                  in and_then (accuracy_score true_labels pred_labels)
                       (\<lambda>acc. let st = emit (PrintTestAccuracy acc) st;
                                 st = emit (PrintReport
                                        (classification_report true_labels pred_labels)) st
                             in Inr st)))"

text \<open>
  \<open>ModelTrainer.__init__\<close> (lines 50-62) on the state \<open>env\<close> of the process. The number
  of batches is the same in every pass of the training loader; \<open>model_visual\<close> takes the
  first batch of a pass and raises when there is none (the graph it sends to the
  telemetry writer is not modelled, neither is the parameter count that is printed).
\<close>

definition ModelTrainer_init ::
  "'e state_dict \<Rightarrow> nat \<Rightarrow> (nat \<Rightarrow> batch list) \<Rightarrow> batch list \<Rightarrow> batch list \<Rightarrow>
     ('e, 'g, 'o) trainer \<Rightarrow> error + ('e, 'g, 'o) trainer" where
  "ModelTrainer_init m n train valid test env =
     (let st = env\<lparr>model := m, epochs := n, best_acc := Fin 0, train_loader := train,
                   valid_loader := valid, test_loader := test, steps := length (train 0)\<rparr>
      in if steps st = 0 then Inl StopIteration else Inr st)"

text \<open>The script (lines 170-173): construct the trainer for 2 epochs, train, test.\<close>

definition script ::
  "('e, 'g, 'o) torch \<Rightarrow> 'e state_dict \<Rightarrow> (nat \<Rightarrow> batch list) \<Rightarrow> batch list \<Rightarrow> batch list \<Rightarrow>
     ('e, 'g, 'o) trainer \<Rightarrow> error + ('e, 'g, 'o) trainer" where
  "script fw classify_model train valid test env =
     and_then (ModelTrainer_init classify_model 2 train valid test env)
       (\<lambda>st. and_then (model_train fw st) (model_test fw))"

section \<open>Vocabulary for the statements\<close>

text \<open>The actions of a run between two of its states.\<close>

definition events_since :: "('e, 'g, 'o) trainer \<Rightarrow> ('e, 'g, 'o) trainer \<Rightarrow> event list" where
  "events_since st st' = drop (length (trace st)) (trace st')"

text \<open>A call of the model passes no segment ids.\<close>

fun segment_free :: "event \<Rightarrow> bool" where
  "segment_free (Forward tr ge ids am segs) = (segs = None)"
| "segment_free _ = True"

text \<open>
  The actions of the training steps: calls of the model in training mode with gradients
  recorded and without segment ids, the stages of a step, and the three scalars logged
  after it.
\<close>

fun step_event :: "event \<Rightarrow> bool" where
  "step_event (Forward tr ge ids am segs) = (tr \<and> ge \<and> segs = None)"
| "step_event Loss = True"
| "step_event ZeroGrad = True"
| "step_event Backward = True"
| "step_event OptimizerStep = True"
| "step_event SchedulerStep = True"
| "step_event (AddScalar tag v n) =
     (tag = ''loss'' \<or> tag = ''training accuracy'' \<or> tag = ''learning rate'')"
| "step_event _ = False"

text \<open>The call of the model on a batch in an evaluation pass.\<close>

definition eval_call :: "batch \<Rightarrow> event" where
  "eval_call b = Forward False False (input_ids b) (attention_mask b) None"

text \<open>The validation accuracies logged among some actions, in order.\<close>

fun valid_accuracies :: "event list \<Rightarrow> pyfloat list" where
  "valid_accuracies [] = []"
| "valid_accuracies (AddScalar tag v n # evs) =
     (if tag = ''valid accuracy'' then v # valid_accuracies evs else valid_accuracies evs)"
| "valid_accuracies (e # evs) = valid_accuracies evs"

text \<open>A logged learning rate is the one of the schedule at the global step it is logged for.\<close>

fun lr_event :: "nat \<Rightarrow> nat \<Rightarrow> event \<Rightarrow> bool" where
  "lr_event w t (AddScalar tag v g) =
     (tag = ''learning rate'' \<longrightarrow> v = Fin (base_lr * lr_lambda w t g))"
| "lr_event w t _ = True"

text \<open>The learning rate is the one the schedule gives for the steps counted so far.\<close>

definition on_schedule :: "('e, 'g, 'o) trainer \<Rightarrow> bool" where
  "on_schedule st \<longleftrightarrow>
     lr st = base_lr * lr_lambda (num_warmup_steps st) (num_training_steps st) (last_epoch st)"

text \<open>
  The logits of a batch have one non-empty row for every label: then the argmax and the
  accuracy of the batch are defined.
\<close>

definition well_shaped :: "('e, 'g, 'o) torch \<Rightarrow> 'e state_dict \<Rightarrow> bool \<Rightarrow> batch \<Rightarrow> bool" where
  "well_shaped fw sd tr b \<longleftrightarrow>
     (let y = forward (BertModel fw) sd tr (input_ids b) (attention_mask b) None
      in length y = length (labels b) \<and> (\<forall>row\<in>set y. row \<noteq> []))"

section \<open>An example run\<close>

text \<open>
  A small instance of the framework and of the data: the encoder's pooled output of an
  example is its two token ids, the classifier starts with the two classes swapped, and
  every optimizer update swaps them again. One batch of two examples serves as the
  training, the validation and the test set. The first epoch ends with every
  validation example classified correctly, the second with none.
\<close>

definition demo_torch :: "(unit, nat, nat) torch" where
  "demo_torch =
     \<lparr>BertModel = (\<lambda>w tr ids am segs. ([], map (map real_of_int) ids)),
      CrossEntropyLoss = (\<lambda>logits target. 0),
      autograd = (\<lambda>sd tr ids am segs target. 1),
      no_grads = 0,
      accumulate = (+),
      AdamW_init = (\<lambda>sd. 0),
      AdamW_step = (\<lambda>rate decay opt g sd.
        (opt + g, sd\<lparr>classifier_weight := rev (classifier_weight sd)\<rparr>))\<rparr>"

definition demo_model :: "unit state_dict" where
  "demo_model =
     \<lparr>bert_weights = (), classifier_weight = [[0, 1], [1, 0]], classifier_bias = [0, 0]\<rparr>"

definition demo_batch :: batch where
  "demo_batch =
     \<lparr>input_ids = [[1, 0], [0, 1]], token_type_ids = [[0, 0], [0, 0]],
      attention_mask = [[1, 1], [1, 1]], labels = [0, 1]\<rparr>"

text \<open>A validation batch on which neither classifier is ever right.\<close>

definition hard_batch :: batch where
  "hard_batch =
     \<lparr>input_ids = [[1, 1]], token_type_ids = [[0, 0]], attention_mask = [[1, 1]], labels = [1]\<rparr>"

definition demo_env :: "(unit, nat, nat) trainer" where
  "demo_env =
     \<lparr>model = demo_model, training = True, grads = 0, epochs = 0, best_acc = Fin 0,
      train_loader = (\<lambda>i. []), valid_loader = [], test_loader = [], steps = 0,
      optimizer = 0, lr = 0, num_warmup_steps = 0, num_training_steps = 0, last_epoch = 0,
      train_loss_sum = 0, train_accuracy = Fin 0, batch_index = 0, grad_enabled = True,
      files = Map.empty, trace = []\<rparr>"

text \<open>The process state of a second run: the best checkpoint of an earlier run is there.\<close>

definition stale_env :: "(unit, nat, nat) trainer" where
  "stale_env = demo_env\<lparr>files := [best_model_path \<mapsto> demo_model]\<rparr>"

text \<open>
  The trainers that \<open>ModelTrainer_init\<close> constructs for two epochs from these: with the
  validation batch that can be classified, with the one that cannot, and with the latter
  in the second run.
\<close>

definition demo_trainer :: "(unit, nat, nat) trainer" where
  "demo_trainer =
     demo_env\<lparr>model := demo_model, epochs := 2, best_acc := Fin 0,
       train_loader := (\<lambda>i. [demo_batch]), valid_loader := [demo_batch],
       test_loader := [demo_batch], steps := 1\<rparr>"

definition hard_trainer :: "(unit, nat, nat) trainer" where
  "hard_trainer = demo_trainer\<lparr>valid_loader := [hard_batch]\<rparr>"

definition stale_trainer :: "(unit, nat, nat) trainer" where
  "stale_trainer = hard_trainer\<lparr>files := [best_model_path \<mapsto> demo_model]\<rparr>"

section \<open>Properties of the evaluation metric\<close>

lemma and_then_Inr:
  "and_then r f = Inr y \<longleftrightarrow> (\<exists>x. r = Inr x \<and> f x = Inr y)"
  by (cases r) (simp_all add: and_then_def)

lemma and_then_simps [simp]:
  "and_then (Inl e) f = Inl e"
  "and_then (Inr x) f = f x"
  by (simp_all add: and_then_def)

lemma argmax_dim1_Inr:
  "argmax_dim1 X = Inr p \<longleftrightarrow> length p = length X \<and> (\<forall>i < length X. argmax (X ! i) = Inr (p ! i))"
proof (induction X arbitrary: p)
  case Nil
  then show ?case by auto
next
  case (Cons row rows)
  show ?case
  proof (cases "argmax row")
    case (Inl e)
    then show ?thesis by (auto simp: and_then_def)
  next
    case (Inr i)
    show ?thesis
    proof (cases "argmax_dim1 rows")
      case (Inl e)
      have "\<not> (length (tl p) = length rows \<and> (\<forall>i<length rows. argmax (rows ! i) = Inr (tl p ! i)))"
        using Cons.IH [of "tl p"] Inl by simp
      then show ?thesis using Inl Inr
        by (cases p) (auto simp: and_then_def)
    next
      case r: (Inr q)
      show ?thesis
      proof (cases p)
        case Nil
        then show ?thesis using Inr r by (auto simp: and_then_def)
      next
        case (Cons a p')
        show ?thesis using Inr r Cons Cons.IH [of p'] Cons.IH [of q]
          by (auto simp: and_then_def nth_Cons split: nat.splits) 
      qed
    qed
  qed
qed

lemma correct_card:
  "length y_true = length p \<Longrightarrow> correct y_true p = card {i. i < length y_true \<and> p ! i = y_true ! i}"
proof -
  assume len: "length y_true = length p"
  have "{i. i < length (zip y_true p) \<and> (case zip y_true p ! i of (t, q) \<Rightarrow> t = q)}
      = {i. i < length y_true \<and> p ! i = y_true ! i}"
    using len by auto
  then show ?thesis
    by (simp add: correct_def length_filter_conv_card)
qed

lemma argmax_from_greatest:
  assumes "drop i L = xs" and "bi < i" and "i \<le> length L" and "L ! bi = best"
    and "\<forall>j<i. L ! j \<le> best" and "\<forall>j<bi. L ! j < best"
  shows "argmax_from best bi i xs < length L
       \<and> (\<forall>j<length L. L ! j \<le> L ! argmax_from best bi i xs)
       \<and> (\<forall>j<argmax_from best bi i xs. L ! j < L ! argmax_from best bi i xs)"
  using assms
proof (induction xs arbitrary: best bi i)
  case Nil
  then have "i = length L" by simp
  with Nil show ?case by simp
next
  case (Cons x xs)
  have i_lt: "i < length L"
    using Cons.prems(1,3) by (metis drop_all le_neq_implies_less list.distinct(1) order_refl)
  have x_def: "x = L ! i"
    using Cons.prems(1) i_lt by (metis Cons_nth_drop_Suc list.inject)
  have rest: "drop (Suc i) L = xs"
    using Cons.prems(1) i_lt by (metis Cons_nth_drop_Suc list.inject)
  show ?case
  proof (cases "best < x")
    case True
    have a: "\<forall>j<Suc i. L ! j \<le> x"
      using Cons.prems(5) True x_def by (metis less_Suc_eq less_eq_real_def order_trans)
    have b: "\<forall>j<i. L ! j < x"
      using Cons.prems(5) True by (meson le_less_trans)
    show ?thesis
      using Cons.IH [OF rest, of i x] a b i_lt x_def True by simp
  next
    case False
    have a: "\<forall>j<Suc i. L ! j \<le> best"
      using Cons.prems(5) False x_def by (metis less_Suc_eq not_less)
    show ?thesis
      using Cons.IH [OF rest, of bi best] a Cons.prems i_lt False by simp
  qed
qed

lemma argmax_greatest:
  assumes "argmax row = Inr k"
  shows "k < length row \<and> (\<forall>j<length row. row ! j \<le> row ! k) \<and> (\<forall>j<k. row ! j < row ! k)"
proof (cases row)
  case Nil
  with assms show ?thesis by (simp add: argmax_def)
next
  case (Cons x xs)
  have k: "k = argmax_from x 0 1 xs"
    using assms Cons by (simp add: argmax_def)
  have "argmax_from x 0 1 xs < length row
       \<and> (\<forall>j<length row. row ! j \<le> row ! argmax_from x 0 1 xs)
       \<and> (\<forall>j<argmax_from x 0 1 xs. row ! j < row ! argmax_from x 0 1 xs)"
    by (rule argmax_from_greatest) (simp_all add: Cons)
  then show ?thesis using k by simp
qed

text \<open>
  C7: the per-step evaluator returns the fraction of examples whose argmax over the
  predicted logits equals the ground-truth label; on the labels \<open>[0,1,1,0]\<close> and logits
  whose argmax is \<open>[0,0,1,0]\<close> it returns 0.75.
\<close>

theorem model_evaluate_accuracy:
  assumes "argmax_dim1 y_pred = Inr p" and "length y_true = length y_pred" and "y_true \<noteq> []"
  shows "model_evaluate y_true y_pred =
           Inr (Fin (real (card {i. i < length y_true \<and> argmax (y_pred ! i) = Inr (y_true ! i)})
                     / real (length y_true)))
       \<and> (y_true = [0, 1, 1, 0] \<and> p = [0, 0, 1, 0] \<longrightarrow>
            model_evaluate y_true y_pred = Inr (Fin 0.75))"
proof -
  have len: "length p = length y_pred"
    and nth: "\<And>i. i < length y_pred \<Longrightarrow> argmax (y_pred ! i) = Inr (p ! i)"
    using assms(1) by (simp_all add: argmax_dim1_Inr)
  have set_eq: "{i. i < length y_true \<and> p ! i = y_true ! i}
      = {i. i < length y_true \<and> argmax (y_pred ! i) = Inr (y_true ! i)}"
    using nth assms(2) by auto
  have ev: "model_evaluate y_true y_pred =
      Inr (Fin (real (correct y_true p) / real (length y_true)))"
    using assms len by (simp add: model_evaluate_def and_then_def accuracy_score_def)
  have gen: "model_evaluate y_true y_pred =
           Inr (Fin (real (card {i. i < length y_true \<and> argmax (y_pred ! i) = Inr (y_true ! i)})
                     / real (length y_true)))"
    using ev correct_card [of y_true p] len assms(2) set_eq by simp
  have inst: "y_true = [0, 1, 1, 0] \<and> p = [0, 0, 1, 0] \<longrightarrow>
            model_evaluate y_true y_pred = Inr (Fin 0.75)"
    using ev by (auto simp: correct_def)
  show ?thesis using gen inst by blast
qed

theorem model_evaluate_accuracy_witness:
  "argmax_dim1 [[2, 1], [3, 0], [0, 5], [1, 0]] = Inr [0, 0, 1, 0]
   \<and> length [0, 1, 1, 0 :: nat] = length [[2, 1], [3, 0], [0, 5], [1, 0 :: real]]
   \<and> [0, 1, 1, 0 :: nat] \<noteq> []
   \<and> model_evaluate [0, 1, 1, 0] [[2, 1], [3, 0], [0, 5], [1, 0]] = Inr (Fin 0.75)"
proof -
  have h: "argmax_dim1 [[2, 1], [3, 0], [0, 5], [1, 0]] = Inr [0, 0, 1, 0]"
    by (simp add: and_then_def argmax_def)
  have l: "length [0, 1, 1, 0 :: nat] = length [[2, 1], [3, 0], [0, 5], [1, 0 :: real]]"
    by simp
  have n: "[0, 1, 1, 0 :: nat] \<noteq> []"
    by simp
  have "model_evaluate [0, 1, 1, 0] [[2, 1], [3, 0], [0, 5], [1, 0]] = Inr (Fin 0.75)"
    using model_evaluate_accuracy [OF h l n] by blast
  then show ?thesis
    using h l n by blast
qed

section \<open>Properties of the classifier head\<close>

lemma forward_eq_linear:
  "forward bert sd tr ids am segs =
     linear (classifier_weight sd) (classifier_bias sd) (snd (bert (bert_weights sd) tr ids am segs))"
  by (simp add: forward_def)

lemma forward_spec_eval:
  "forward_spec bert q zeroed sd False ids am segs = forward bert sd False ids am segs"
  by (simp add: forward_spec_def forward_def dropout_def)

lemma linear_shape:
  "length (linear W b X) = length X"
  "length W = length b \<Longrightarrow> row \<in> set (linear W b X) \<Longrightarrow> length row = length b"
  by (auto simp: linear_def)

text \<open>
  C3: the specification has dropout between the pooled output and the linear
  projection. The module builds the dropout layer but \<open>forward\<close> never applies it: in
  training mode, with dropout probability 0.1 and a draw that zeroes the first pooled
  entry, the logits are those of the untouched pooled output, \<open>[[1, 1]]\<close>, where the
  specified forward pass gives \<open>[[0, 10/9]]\<close>.
\<close>

theorem forward_skips_dropout:
  "forward (\<lambda>w t ids am segs. ([], [[1, 1]]))
       \<lparr>bert_weights = (), classifier_weight = [[1, 0], [0, 1]], classifier_bias = [0, 0]\<rparr>
       True [[101, 102]] [[1, 1]] None = [[1, 1]]
   \<and> forward_spec (\<lambda>w t ids am segs. ([], [[1, 1]])) (1 / 10) [[True, False]]
       \<lparr>bert_weights = (), classifier_weight = [[1, 0], [0, 1]], classifier_bias = [0, 0]\<rparr>
       True [[101, 102]] [[1, 1]] None = [[0, 10 / 9]]"
  by (simp add: forward_def forward_spec_def dropout_def linear_def dot_def)

section \<open>Properties of the trainer\<close>

lemma train_step_fields:
  assumes "train_step fw k b st = Inr st'"
  shows "grad_enabled st"
    and "grads st' = accumulate fw (no_grads fw)
           (autograd fw (model st) (training st) (input_ids b) (attention_mask b) None (labels b))"
    and "(optimizer st', model st') =
           AdamW_step fw (lr st) weight_decay (optimizer st) (grads st') (model st)"
    and "last_epoch st' = last_epoch st + 1"
    and "lr st' = base_lr * lr_lambda (num_warmup_steps st) (num_training_steps st) (last_epoch st + 1)"
    and "batch_index st' = batch_index st + 1"
    and "trace st' = trace st @
           [Forward (training st) True (input_ids b) (attention_mask b) None,
            Loss, ZeroGrad, Backward, OptimizerStep, SchedulerStep,
            AddScalar ''loss'' (Fin (train_loss_sum st' / real (batch_index st')))
              ((k - 1) * steps st + batch_index st'),
            AddScalar ''training accuracy'' (float_div (train_accuracy st') (batch_index st'))
              ((k - 1) * steps st + batch_index st'),
            AddScalar ''learning rate'' (Fin (lr st')) ((k - 1) * steps st + batch_index st')]"
    and "train_loss_sum st' = train_loss_sum st + CrossEntropyLoss fw
           (forward (BertModel fw) (model st) (training st) (input_ids b) (attention_mask b) None)
           (labels b)"
  using assms
  by (auto simp: train_step_def call_model_def emit_def zero_grad_def backward_def
      optimizer_step_def scheduler_step_def Let_def and_then_Inr split: if_splits prod.splits)

lemma train_step_frame:
  assumes "train_step fw k b st = Inr st'"
  shows "epochs st' = epochs st" and "best_acc st' = best_acc st"
    and "train_loader st' = train_loader st" and "valid_loader st' = valid_loader st"
    and "test_loader st' = test_loader st" and "steps st' = steps st"
    and "num_warmup_steps st' = num_warmup_steps st"
    and "num_training_steps st' = num_training_steps st"
    and "training st' = training st" and "grad_enabled st' = grad_enabled st"
    and "files st' = files st"
  using assms
  by (auto simp: train_step_def call_model_def emit_def zero_grad_def backward_def
      optimizer_step_def scheduler_step_def Let_def and_then_Inr split: if_splits prod.splits)

lemma train_step_grads_irrelevant:
  "train_step fw k b (st\<lparr>grads := g\<rparr>) = train_step fw k b st"
  by (simp add: train_step_def call_model_def emit_def zero_grad_def backward_def
      optimizer_step_def scheduler_step_def Let_def split: prod.splits)

lemma train_step_events:
  assumes "train_step fw k b st = Inr st'" and "training st"
  shows "\<exists>evs. trace st' = trace st @ evs \<and> list_all step_event evs"
  using train_step_fields(7) [OF assms(1)] assms(2) by simp

lemma train_batches_frame:
  assumes "train_batches fw k bs st = Inr st'"
  shows "epochs st' = epochs st \<and> best_acc st' = best_acc st
    \<and> train_loader st' = train_loader st \<and> valid_loader st' = valid_loader st
    \<and> test_loader st' = test_loader st \<and> steps st' = steps st
    \<and> num_warmup_steps st' = num_warmup_steps st
    \<and> num_training_steps st' = num_training_steps st
    \<and> training st' = training st \<and> grad_enabled st' = grad_enabled st
    \<and> files st' = files st \<and> last_epoch st' = last_epoch st + length bs"
  using assms
proof (induction bs arbitrary: st)
  case Nil
  then show ?case by simp
next
  case (Cons b bs)
  from Cons.prems obtain s where s: "train_step fw k b st = Inr s"
    and rest: "train_batches fw k bs s = Inr st'"
    by (auto simp: and_then_Inr)
  show ?case
    using Cons.IH [OF rest] train_step_frame [OF s] train_step_fields(4) [OF s] by simp
qed

lemma train_batches_schedule:
  assumes "train_batches fw k bs st = Inr st'" and "on_schedule st"
  shows "on_schedule st'"
  using assms
proof (induction bs arbitrary: st)
  case Nil
  then show ?case by simp
next
  case (Cons b bs)
  from Cons.prems obtain s where s: "train_step fw k b st = Inr s"
    and rest: "train_batches fw k bs s = Inr st'"
    by (auto simp: and_then_Inr)
  have "on_schedule s"
    using train_step_fields(4,5) [OF s] train_step_frame(7,8) [OF s]
    by (simp add: on_schedule_def)
  then show ?case
    using Cons.IH [OF rest] by simp
qed

lemma train_batches_events:
  assumes "train_batches fw k bs st = Inr st'" and "training st"
  shows "\<exists>evs. trace st' = trace st @ evs \<and> list_all step_event evs"
  using assms
proof (induction bs arbitrary: st)
  case Nil
  then show ?case by simp
next
  case (Cons b bs)
  from Cons.prems obtain s where s: "train_step fw k b st = Inr s"
    and rest: "train_batches fw k bs s = Inr st'"
    by (auto simp: and_then_Inr)
  obtain e1 where e1: "trace s = trace st @ e1" "list_all step_event e1"
    using train_step_events [OF s Cons.prems(2)] by blast
  have "training s"
    using train_step_frame(9) [OF s] Cons.prems(2) by simp
  then obtain e2 where e2: "trace st' = trace s @ e2" "list_all step_event e2"
    using Cons.IH [OF rest] by blast
  have "trace st' = trace st @ (e1 @ e2) \<and> list_all step_event (e1 @ e2)"
    using e1 e2 by simp
  then show ?case by blast
qed

lemma predict_batches_Inr:
  assumes "predict_batches fw bs t p st = Inr ((t', p'), st')"
  shows "st' = st\<lparr>trace := trace st @
             map (\<lambda>b. Forward (training st) (grad_enabled st) (input_ids b) (attention_mask b) None) bs\<rparr>
       \<and> t' = t @ concat (map labels bs)
       \<and> (\<exists>qs. list_all2 (\<lambda>b q. argmax_dim1 (forward (BertModel fw) (model st) (training st)
                                  (input_ids b) (attention_mask b) None) = Inr q) bs qs
               \<and> p' = p @ concat qs)"
  using assms
proof (induction bs arbitrary: t p st)
  case Nil
  then show ?case by simp
next
  case (Cons b bs)
  let ?s = "emit (Forward (training st) (grad_enabled st) (input_ids b) (attention_mask b) None) st"
  let ?y = "forward (BertModel fw) (model st) (training st) (input_ids b) (attention_mask b) None"
  from Cons.prems obtain q where q: "argmax_dim1 ?y = Inr q"
    and rest: "predict_batches fw bs (t @ labels b) (p @ q) ?s = Inr ((t', p'), st')"
    by (auto simp: call_model_def Let_def and_then_Inr)
  from Cons.IH [OF rest] obtain qs where
    st': "st' = ?s\<lparr>trace := trace ?s @
             map (\<lambda>b. Forward (training ?s) (grad_enabled ?s) (input_ids b) (attention_mask b) None) bs\<rparr>"
    and t': "t' = (t @ labels b) @ concat (map labels bs)"
    and qs: "list_all2 (\<lambda>b q. argmax_dim1 (forward (BertModel fw) (model ?s) (training ?s)
                                  (input_ids b) (attention_mask b) None) = Inr q) bs qs"
    and p': "p' = (p @ q) @ concat qs"
    by blast
  have a: "st' = st\<lparr>trace := trace st @
             map (\<lambda>b. Forward (training st) (grad_enabled st) (input_ids b) (attention_mask b) None) (b # bs)\<rparr>"
    using st' by (simp add: emit_def)
  have b: "list_all2 (\<lambda>b q. argmax_dim1 (forward (BertModel fw) (model st) (training st)
                                  (input_ids b) (attention_mask b) None) = Inr q) (b # bs) (q # qs)"
    using qs q by (simp add: emit_def)
  have c: "p' = p @ concat (q # qs)"
    using p' by simp
  show ?case using a b c t' by auto
qed

lemma model_valid_Inr:
  assumes "model_valid fw dl st = Inr (acc, st')"
  shows "st' = st\<lparr>training := False, trace := trace st @ map eval_call dl\<rparr>
       \<and> (\<exists>qs. list_all2 (\<lambda>b q. argmax_dim1 (forward (BertModel fw) (model st) False
                                  (input_ids b) (attention_mask b) None) = Inr q) dl qs
               \<and> accuracy_score (concat (map labels dl)) (concat qs) = Inr acc)"
proof -
  let ?s = "st\<lparr>training := False, grad_enabled := False\<rparr>"
  from assms obtain t p s1 where pb: "predict_batches fw dl [] [] ?s = Inr ((t, p), s1)"
    and acc: "accuracy_score t p = Inr acc"
    and st': "st' = s1\<lparr>grad_enabled := grad_enabled st\<rparr>"
    by (auto simp: model_valid_def Let_def and_then_Inr)
  from predict_batches_Inr [OF pb] obtain qs where
    s1: "s1 = ?s\<lparr>trace := trace ?s @
             map (\<lambda>b. Forward (training ?s) (grad_enabled ?s) (input_ids b) (attention_mask b) None) dl\<rparr>"
    and t: "t = [] @ concat (map labels dl)"
    and qs: "list_all2 (\<lambda>b q. argmax_dim1 (forward (BertModel fw) (model ?s) (training ?s)
                                  (input_ids b) (attention_mask b) None) = Inr q) dl qs"
    and p: "p = [] @ concat qs"
    by blast
  have a: "st' = st\<lparr>training := False, trace := trace st @ map eval_call dl\<rparr>"
    using st' s1 by (simp add: eval_call_def)
  have b: "list_all2 (\<lambda>b q. argmax_dim1 (forward (BertModel fw) (model st) False
                                  (input_ids b) (attention_mask b) None) = Inr q) dl qs"
    using qs by simp
  show ?thesis using a b acc t p by auto
qed

lemma paths_differ [simp]: "best_model_path \<noteq> most_model_path" "most_model_path \<noteq> best_model_path"
  by (simp_all add: best_model_path_def most_model_path_def)

lemma checkpoint_fields:
  "trace (checkpoint acc st) = trace st @
     (if float_gt acc (best_acc st) then [Save best_model_path] else []) @ [Save most_model_path]"
  "best_acc (checkpoint acc st) = (if float_gt acc (best_acc st) then acc else best_acc st)"
  "files (checkpoint acc st) most_model_path = Some (model st)"
  "files (checkpoint acc st) best_model_path =
     (if float_gt acc (best_acc st) then Some (model st) else files st best_model_path)"
  "model (checkpoint acc st) = model st"
  by (simp_all add: checkpoint_def torch_save_def emit_def Let_def)

lemma checkpoint_frame:
  "epochs (checkpoint acc st) = epochs st"
  "train_loader (checkpoint acc st) = train_loader st"
  "valid_loader (checkpoint acc st) = valid_loader st"
  "test_loader (checkpoint acc st) = test_loader st"
  "steps (checkpoint acc st) = steps st"
  "num_warmup_steps (checkpoint acc st) = num_warmup_steps st"
  "num_training_steps (checkpoint acc st) = num_training_steps st"
  "last_epoch (checkpoint acc st) = last_epoch st"
  "lr (checkpoint acc st) = lr st"
  "grad_enabled (checkpoint acc st) = grad_enabled st"
  by (simp_all add: checkpoint_def torch_save_def emit_def Let_def)

lemma train_epoch_Inr:
  assumes "train_epoch fw i st = Inr st'"
  shows "\<exists>s1 s2 acc.
      train_batches fw (i + 1) (train_loader st i)
        (st\<lparr>training := True, train_loss_sum := 0, train_accuracy := Fin 0, batch_index := 0\<rparr>) = Inr s1
    \<and> model_valid fw (valid_loader st) s1 = Inr (acc, s2)
    \<and> st' = checkpoint acc (emit (AddScalar ''valid accuracy'' acc (i + 1)) s2)"
proof -
  let ?s0 = "st\<lparr>training := True, train_loss_sum := 0, train_accuracy := Fin 0, batch_index := 0\<rparr>"
  from assms obtain s1 where s1: "train_batches fw (i + 1) (train_loader st i) ?s0 = Inr s1"
    and r: "and_then (model_valid fw (valid_loader s1) s1)
              (\<lambda>(acc, st). let st = emit (AddScalar ''valid accuracy'' acc (i + 1)) st
                            in Inr (checkpoint acc st)) = Inr st'"
    by (auto simp: train_epoch_def Let_def and_then_Inr)
  have vl: "valid_loader s1 = valid_loader st"
    using train_batches_frame [OF s1] by simp
  from r obtain acc s2 where v: "model_valid fw (valid_loader s1) s1 = Inr (acc, s2)"
    and st': "st' = checkpoint acc (emit (AddScalar ''valid accuracy'' acc (i + 1)) s2)"
    by (auto simp: Let_def and_then_Inr)
  show ?thesis using s1 v st' vl by auto
qed

lemma train_epoch_summary:
  assumes "train_epoch fw i st = Inr st'"
  shows "\<exists>tevs acc s1 s2.
      train_batches fw (i + 1) (train_loader st i)
        (st\<lparr>training := True, train_loss_sum := 0, train_accuracy := Fin 0, batch_index := 0\<rparr>) = Inr s1
    \<and> model_valid fw (valid_loader st) s1 = Inr (acc, s2)
    \<and> list_all step_event tevs
    \<and> trace st' = trace st @ tevs @ map eval_call (valid_loader st)
         @ [AddScalar ''valid accuracy'' acc (i + 1)]
         @ (if float_gt acc (best_acc st) then [Save best_model_path] else [])
         @ [Save most_model_path]
    \<and> best_acc st' = (if float_gt acc (best_acc st) then acc else best_acc st)
    \<and> files st' most_model_path = Some (model st')
    \<and> files st' best_model_path =
         (if float_gt acc (best_acc st) then Some (model st') else files st best_model_path)"
proof -
  let ?s0 = "st\<lparr>training := True, train_loss_sum := 0, train_accuracy := Fin 0, batch_index := 0\<rparr>"
  from train_epoch_Inr [OF assms] obtain s1 s2 acc where
    s1: "train_batches fw (i + 1) (train_loader st i) ?s0 = Inr s1"
    and v: "model_valid fw (valid_loader st) s1 = Inr (acc, s2)"
    and st': "st' = checkpoint acc (emit (AddScalar ''valid accuracy'' acc (i + 1)) s2)"
    by blast
  obtain tevs where tevs: "trace s1 = trace ?s0 @ tevs" "list_all step_event tevs"
    using train_batches_events [OF s1] by auto
  have fr: "best_acc s1 = best_acc st" "files s1 = files st"
    using train_batches_frame [OF s1] by simp_all
  have s2: "s2 = s1\<lparr>training := False, trace := trace s1 @ map eval_call (valid_loader st)\<rparr>"
    using model_valid_Inr [OF v] by blast
  let ?s3 = "emit (AddScalar ''valid accuracy'' acc (i + 1)) s2"
  have b3: "best_acc ?s3 = best_acc st" and f3: "files ?s3 = files st"
    and t3: "trace ?s3 = trace st @ tevs @ map eval_call (valid_loader st)
               @ [AddScalar ''valid accuracy'' acc (i + 1)]"
    using s2 fr tevs by (simp_all add: emit_def)
  have "trace st' = trace st @ tevs @ map eval_call (valid_loader st)
         @ [AddScalar ''valid accuracy'' acc (i + 1)]
         @ (if float_gt acc (best_acc st) then [Save best_model_path] else [])
         @ [Save most_model_path]"
    using st' t3 b3 by (simp add: checkpoint_fields)
  moreover have "best_acc st' = (if float_gt acc (best_acc st) then acc else best_acc st)"
    using st' b3 by (simp add: checkpoint_fields)
  moreover have "files st' most_model_path = Some (model st')"
    using st' by (simp add: checkpoint_fields)
  moreover have "files st' best_model_path =
         (if float_gt acc (best_acc st) then Some (model st') else files st best_model_path)"
    using st' b3 f3 by (simp add: checkpoint_fields)
  ultimately show ?thesis using s1 v tevs(2) by blast
qed

lemma train_epoch_frame:
  assumes "train_epoch fw i st = Inr st'"
  shows "epochs st' = epochs st \<and> train_loader st' = train_loader st
    \<and> valid_loader st' = valid_loader st \<and> test_loader st' = test_loader st
    \<and> steps st' = steps st \<and> num_warmup_steps st' = num_warmup_steps st
    \<and> num_training_steps st' = num_training_steps st
    \<and> grad_enabled st' = grad_enabled st
    \<and> last_epoch st' = last_epoch st + length (train_loader st i)
    \<and> (on_schedule st \<longrightarrow> on_schedule st')"
proof -
  let ?s0 = "st\<lparr>training := True, train_loss_sum := 0, train_accuracy := Fin 0, batch_index := 0\<rparr>"
  from train_epoch_Inr [OF assms] obtain s1 s2 acc where
    s1: "train_batches fw (i + 1) (train_loader st i) ?s0 = Inr s1"
    and v: "model_valid fw (valid_loader st) s1 = Inr (acc, s2)"
    and st': "st' = checkpoint acc (emit (AddScalar ''valid accuracy'' acc (i + 1)) s2)"
    by blast
  have s2: "s2 = s1\<lparr>training := False, trace := trace s1 @ map eval_call (valid_loader st)\<rparr>"
    using model_valid_Inr [OF v] by blast
  have sch: "on_schedule st \<longrightarrow> on_schedule s1"
    using train_batches_schedule [OF s1] by (simp add: on_schedule_def)
  have "on_schedule s1 \<longrightarrow> on_schedule st'"
    using st' s2 by (simp add: on_schedule_def checkpoint_frame emit_def)
  then show ?thesis
    using train_batches_frame [OF s1] st' s2 sch by (simp add: checkpoint_frame emit_def)
qed

lemma epoch_loop_append:
  "epoch_loop fw (xs @ ys) st = and_then (epoch_loop fw xs st) (epoch_loop fw ys)"
proof (induction xs arbitrary: st)
  case Nil
  show ?case by simp
next
  case (Cons x xs)
  show ?case
    by (cases "train_epoch fw x st") (simp_all add: Cons.IH)
qed

lemma epoch_loop_split:
  assumes "epoch_loop fw [0..<n] s0 = Inr sn" and "k < n"
  shows "\<exists>s s'. epoch_loop fw [0..<k] s0 = Inr s \<and> train_epoch fw k s = Inr s'
            \<and> epoch_loop fw [Suc k..<n] s' = Inr sn"
proof -
  have a: "[0..<n] = [0..<k] @ [k..<n]"
    using upt_add_eq_append [of 0 k "n - k"] assms(2) by simp
  have b: "[k..<n] = k # [Suc k..<n]"
    using assms(2) by (simp add: upt_conv_Cons)
  have "and_then (epoch_loop fw [0..<k] s0) (epoch_loop fw (k # [Suc k..<n])) = Inr sn"
    using assms(1) unfolding a b epoch_loop_append .
  then show ?thesis
    by (auto simp: and_then_Inr)
qed

lemma float_le_trans: "float_le a b \<Longrightarrow> float_le b c \<Longrightarrow> float_le a c"
  by (cases a; cases b; cases c) simp_all

lemma float_gt_le: "float_gt a b \<Longrightarrow> float_le b a"
  by (cases a; cases b) simp_all

lemma float_le_left: "float_le a b \<Longrightarrow> float_le a a"
  by (cases a; cases b) simp_all

lemma float_le_right: "float_le a b \<Longrightarrow> float_le b b"
  by (cases a; cases b) simp_all

lemma step_events_no_save:
  "list_all step_event evs \<Longrightarrow> count_list evs (Save p) = 0"
  by (induction evs) auto

lemma step_events_no_valid_accuracy:
  "list_all step_event evs \<Longrightarrow> AddScalar ''valid accuracy'' v n \<notin> set evs"
  by (induction evs) auto

lemma step_events_segment_free:
  "list_all step_event evs \<Longrightarrow> list_all segment_free evs"
proof (induction evs)
  case Nil
  show ?case by simp
next
  case (Cons e evs)
  then show ?case by (cases e) simp_all
qed

lemma eval_calls_no_save: "count_list (map eval_call bs) (Save p) = 0"
  by (induction bs) (simp_all add: eval_call_def)

lemma eval_calls_segment_free: "list_all segment_free (map eval_call bs)"
  by (induction bs) (simp_all add: eval_call_def)

lemma train_epoch_best:
  assumes "train_epoch fw i st = Inr st'" and "float_le b (best_acc st)"
  shows "float_le (best_acc st) (best_acc st')"
proof -
  from train_epoch_summary [OF assms(1)] obtain acc where
    "best_acc st' = (if float_gt acc (best_acc st) then acc else best_acc st)"
    by blast
  then show ?thesis
    using float_gt_le [of acc "best_acc st"] float_le_right [OF assms(2)] by simp
qed

lemma train_epoch_events:
  assumes "train_epoch fw i st = Inr st'"
  shows "\<exists>evs. trace st' = trace st @ evs \<and> list_all segment_free evs
           \<and> count_list evs (Save most_model_path) = 1"
proof -
  from train_epoch_summary [OF assms(1)] obtain tevs acc where
    tevs: "list_all step_event tevs"
    and tr: "trace st' = trace st @ tevs @ map eval_call (valid_loader st)
         @ [AddScalar ''valid accuracy'' acc (i + 1)]
         @ (if float_gt acc (best_acc st) then [Save best_model_path] else [])
         @ [Save most_model_path]"
    by blast
  let ?evs = "tevs @ map eval_call (valid_loader st)
         @ [AddScalar ''valid accuracy'' acc (i + 1)]
         @ (if float_gt acc (best_acc st) then [Save best_model_path] else [])
         @ [Save most_model_path]"
  have a: "list_all segment_free ?evs"
    using step_events_segment_free [OF tevs] eval_calls_segment_free by simp
  have b: "count_list ?evs (Save most_model_path) = 1"
    using step_events_no_save [OF tevs] eval_calls_no_save by simp
  show ?thesis using tr a b by blast
qed

lemma epoch_loop_frame:
  assumes "epoch_loop fw js st = Inr st'"
  shows "epochs st' = epochs st \<and> train_loader st' = train_loader st
    \<and> valid_loader st' = valid_loader st \<and> test_loader st' = test_loader st
    \<and> steps st' = steps st \<and> num_warmup_steps st' = num_warmup_steps st
    \<and> num_training_steps st' = num_training_steps st
    \<and> grad_enabled st' = grad_enabled st
    \<and> last_epoch st' = last_epoch st + sum_list (map (\<lambda>i. length (train_loader st i)) js)
    \<and> (on_schedule st \<longrightarrow> on_schedule st')"
  using assms
proof (induction js arbitrary: st)
  case Nil
  then show ?case by simp
next
  case (Cons j js)
  from Cons.prems obtain s where s: "train_epoch fw j st = Inr s"
    and rest: "epoch_loop fw js s = Inr st'"
    by (auto simp: and_then_Inr)
  show ?case
    using Cons.IH [OF rest] train_epoch_frame [OF s] by simp
qed

lemma epoch_loop_best:
  assumes "epoch_loop fw js st = Inr st'" and "float_le b (best_acc st)"
  shows "float_le (best_acc st) (best_acc st')"
  using assms
proof (induction js arbitrary: st b)
  case Nil
  then show ?case using float_le_right by simp
next
  case (Cons j js)
  from Cons.prems obtain s where s: "train_epoch fw j st = Inr s"
    and rest: "epoch_loop fw js s = Inr st'"
    by (auto simp: and_then_Inr)
  have a: "float_le (best_acc st) (best_acc s)"
    using train_epoch_best [OF s Cons.prems(2)] .
  have "float_le (best_acc s) (best_acc st')"
    using Cons.IH [OF rest a] .
  with a show ?case by (rule float_le_trans)
qed

lemma epoch_loop_events:
  assumes "epoch_loop fw js st = Inr st'"
  shows "\<exists>evs. trace st' = trace st @ evs \<and> list_all segment_free evs
           \<and> count_list evs (Save most_model_path) = length js"
  using assms
proof (induction js arbitrary: st)
  case Nil
  then show ?case by simp
next
  case (Cons j js)
  from Cons.prems obtain s where s: "train_epoch fw j st = Inr s"
    and rest: "epoch_loop fw js s = Inr st'"
    by (auto simp: and_then_Inr)
  obtain e1 where e1: "trace s = trace st @ e1" "list_all segment_free e1"
    "count_list e1 (Save most_model_path) = 1"
    using train_epoch_events [OF s] by blast
  obtain e2 where e2: "trace st' = trace s @ e2" "list_all segment_free e2"
    "count_list e2 (Save most_model_path) = length js"
    using Cons.IH [OF rest] by blast
  have "trace st' = trace st @ (e1 @ e2) \<and> list_all segment_free (e1 @ e2)
      \<and> count_list (e1 @ e2) (Save most_model_path) = length (j # js)"
    using e1 e2 by simp
  then show ?case by blast
qed

lemma events_since_append: "trace st' = trace st @ evs \<Longrightarrow> events_since st st' = evs"
  by (simp add: events_since_def)

lemma train_setup_fields:
  "trace (train_setup fw st) = trace st"
  "best_acc (train_setup fw st) = best_acc st"
  "files (train_setup fw st) = files st"
  "epochs (train_setup fw st) = epochs st"
  "steps (train_setup fw st) = steps st"
  "train_loader (train_setup fw st) = train_loader st"
  "valid_loader (train_setup fw st) = valid_loader st"
  "test_loader (train_setup fw st) = test_loader st"
  "grad_enabled (train_setup fw st) = grad_enabled st"
  "model (train_setup fw st) = model st"
  "num_warmup_steps (train_setup fw st) = steps st"
  "num_training_steps (train_setup fw st) = epochs st * steps st"
  "last_epoch (train_setup fw st) = 0"
  "lr (train_setup fw st) = base_lr * lr_lambda (steps st) (epochs st * steps st) 0"
  by (simp_all add: train_setup_def get_cosine_schedule_with_warmup_def Let_def)

lemma ModelTrainer_init_Inr:
  assumes "ModelTrainer_init m n tr va te env = Inr st"
  shows "best_acc st = Fin 0" and "epochs st = n" and "steps st = length (tr 0)" and "0 < steps st"
    and "model st = m" and "train_loader st = tr" and "valid_loader st = va" and "test_loader st = te"
    and "files st = files env" and "trace st = trace env"
  using assms by (auto simp: ModelTrainer_init_def Let_def split: if_splits)

section \<open>Passes that complete\<close>

text \<open>
  On well-shaped logits the evaluation passes and the training step raise nothing of
  their own: validation completes, the test phase completes when the best checkpoint
  exists, and a training step completes when gradients are recorded.
\<close>

lemma argmax_dim1_total:
  "\<forall>row\<in>set y. row \<noteq> [] \<Longrightarrow> \<exists>p. argmax_dim1 y = Inr p \<and> length p = length y"
proof (induction y)
  case Nil
  show ?case by simp
next
  case (Cons row y)
  then obtain p where p: "argmax_dim1 y = Inr p" "length p = length y"
    by auto
  from Cons.prems obtain x xs where "row = x # xs"
    by (cases row) auto
  then show ?case
    using p by (simp add: argmax_def)
qed

lemma predict_batches_total:
  assumes "\<forall>b\<in>set bs. well_shaped fw (model st) (training st) b" and "length t = length p"
  shows "\<exists>t' p' st'. predict_batches fw bs t p st = Inr ((t', p'), st') \<and> length t' = length p'"
  using assms
proof (induction bs arbitrary: t p st)
  case Nil
  then show ?case by simp
next
  case (Cons b bs)
  let ?y = "forward (BertModel fw) (model st) (training st) (input_ids b) (attention_mask b) None"
  let ?s = "emit (Forward (training st) (grad_enabled st) (input_ids b) (attention_mask b) None) st"
  have ws: "length ?y = length (labels b)" "\<forall>row\<in>set ?y. row \<noteq> []"
    using Cons.prems(1) by (simp_all add: well_shaped_def Let_def)
  from argmax_dim1_total [OF ws(2)] obtain q where q: "argmax_dim1 ?y = Inr q" "length q = length ?y"
    by blast
  have a: "\<forall>b\<in>set bs. well_shaped fw (model ?s) (training ?s) b"
    using Cons.prems(1) by (simp add: emit_def)
  have b: "length (t @ labels b) = length (p @ q)"
    using Cons.prems(2) q(2) ws(1) by simp
  from Cons.IH [OF a b] show ?case
    using q(1) by (simp add: call_model_def Let_def)
qed

lemma accuracy_score_total:
  "length t = length p \<Longrightarrow> \<exists>acc. accuracy_score t p = Inr acc"
  by (simp add: accuracy_score_def)

lemma model_valid_completes:
  assumes "\<forall>b\<in>set dl. well_shaped fw (model st) False b"
  shows "\<exists>acc st'. model_valid fw dl st = Inr (acc, st')"
proof -
  let ?s = "st\<lparr>training := False, grad_enabled := False\<rparr>"
  have "\<forall>b\<in>set dl. well_shaped fw (model ?s) (training ?s) b"
    using assms by simp
  from predict_batches_total [OF this, of "[]" "[]"] obtain t p s1 where
    pb: "predict_batches fw dl [] [] ?s = Inr ((t, p), s1)" and len: "length t = length p"
    by auto
  from accuracy_score_total [OF len] obtain acc where "accuracy_score t p = Inr acc"
    by blast
  then show ?thesis
    using pb by (simp add: model_valid_def Let_def)
qed

lemma model_test_completes:
  assumes "files st best_model_path = Some sd"
    and "\<forall>b\<in>set (test_loader st). well_shaped fw sd False b"
  shows "\<exists>st'. model_test fw st = Inr st'"
proof -
  let ?s = "(emit (Load best_model_path) st)\<lparr>model := sd, training := False, grad_enabled := False\<rparr>"
  have "\<forall>b\<in>set (test_loader st). well_shaped fw (model ?s) (training ?s) b"
    using assms(2) by (simp add: emit_def)
  from predict_batches_total [OF this, of "[]" "[]"] obtain t p s1 where
    pb: "predict_batches fw (test_loader st) [] [] ?s = Inr ((t, p), s1)"
    and len: "length t = length p"
    by auto
  from accuracy_score_total [OF len] obtain acc where "accuracy_score t p = Inr acc"
    by blast
  then show ?thesis
    using pb assms(1) by (simp add: model_test_def torch_load_def Let_def emit_def)
qed

lemma train_step_completes:
  assumes "grad_enabled st" and "well_shaped fw (model st) (training st) b"
  shows "\<exists>st'. train_step fw k b st = Inr st'"
proof -
  let ?y = "forward (BertModel fw) (model st) (training st) (input_ids b) (attention_mask b) None"
  have ws: "length ?y = length (labels b)" "\<forall>row\<in>set ?y. row \<noteq> []"
    using assms(2) by (simp_all add: well_shaped_def Let_def)
  from argmax_dim1_total [OF ws(2)] obtain q where q: "argmax_dim1 ?y = Inr q" "length q = length ?y"
    by blast
  have "length (labels b) = length q"
    using q(2) ws(1) by simp
  from accuracy_score_total [OF this] obtain acc where "accuracy_score (labels b) q = Inr acc"
    by blast
  then have "model_evaluate (labels b) ?y = Inr acc"
    using q(1) by (simp add: model_evaluate_def)
  then show ?thesis
    using assms(1)
    by (simp add: train_step_def call_model_def emit_def zero_grad_def backward_def
        optimizer_step_def scheduler_step_def Let_def split: prod.splits)
qed

section \<open>The example run, evaluated\<close>

lemmas demo_defs = demo_torch_def demo_model_def demo_batch_def hard_batch_def demo_env_def
  stale_env_def demo_trainer_def hard_trainer_def stale_trainer_def

lemmas run_defs = ModelTrainer_init_def model_train_def train_setup_def
  get_cosine_schedule_with_warmup_def train_epoch_def train_step_def call_model_def emit_def
  zero_grad_def backward_def optimizer_step_def scheduler_step_def model_valid_def
  checkpoint_def torch_save_def torch_load_def model_test_def model_evaluate_def
  accuracy_score_def correct_def argmax_def forward_def linear_def dot_def Let_def

lemma demo_init:
  "ModelTrainer_init demo_model 2 (\<lambda>i. [demo_batch]) [demo_batch] [demo_batch] demo_env
     = Inr demo_trainer"
  by (simp add: ModelTrainer_init_def demo_defs)

lemma hard_init:
  "ModelTrainer_init demo_model 2 (\<lambda>i. [demo_batch]) [hard_batch] [demo_batch] demo_env
     = Inr hard_trainer"
  by (simp add: ModelTrainer_init_def demo_defs)

lemma demo_step:
  "\<exists>st'. train_step demo_torch 1 demo_batch demo_env = Inr st'"
  by (simp add: run_defs demo_defs)

lemma demo_run:
  "\<exists>st'. model_train demo_torch demo_trainer = Inr st'"
  by (simp add: run_defs demo_defs upt_rec numeral_2_eq_2)

lemma demo_script:
  "\<exists>st1 st2. model_train demo_torch demo_trainer = Inr st1
     \<and> model_test demo_torch st1 = Inr st2
     \<and> files st1 most_model_path \<noteq> files st1 best_model_path
     \<and> model st2 \<noteq> model st1"
  by (simp add: run_defs demo_defs best_model_path_def most_model_path_def
      upt_rec numeral_2_eq_2)

lemma hard_run:
  "\<exists>st1. model_train demo_torch hard_trainer = Inr st1
     \<and> valid_accuracies (events_since hard_trainer st1) = [Fin 0, Fin 0]"
  by (simp add: run_defs demo_defs events_since_def upt_rec numeral_2_eq_2)

lemma stale_run:
  "\<exists>s1 acc s2 s3. model_train demo_torch stale_trainer = Inr s1
     \<and> model_valid demo_torch [demo_batch] stale_trainer = Inr (acc, s2)
     \<and> model_test demo_torch stale_trainer = Inr s3
     \<and> events_since stale_trainer s2 \<noteq> []"
  by (simp add: run_defs demo_defs events_since_def best_model_path_def
      upt_rec numeral_2_eq_2)

section \<open>The training step\<close>

text \<open>
  C2: a training step that completes performs, in this order, the forward pass (without
  segment ids, gradients recorded), the cross-entropy loss of its logits against the
  labels, the clearing of the gradient buffers, the backward pass, one optimizer update
  and one scheduler step, and then logs three scalars. The buffers hold the gradient of
  this batch alone when the optimizer reads them, and whatever they held on entry has no
  influence on the outcome of the step.
\<close>

theorem train_step_order:
  assumes "train_step fw k b st = Inr st'"
  shows "trace st' = trace st @
           [Forward (training st) True (input_ids b) (attention_mask b) None,
            Loss, ZeroGrad, Backward, OptimizerStep, SchedulerStep,
            AddScalar ''loss'' (Fin (train_loss_sum st' / real (batch_index st')))
              ((k - 1) * steps st + batch_index st'),
            AddScalar ''training accuracy'' (float_div (train_accuracy st') (batch_index st'))
              ((k - 1) * steps st + batch_index st'),
            AddScalar ''learning rate'' (Fin (lr st')) ((k - 1) * steps st + batch_index st')]
       \<and> train_loss_sum st' = train_loss_sum st + CrossEntropyLoss fw
           (forward (BertModel fw) (model st) (training st) (input_ids b) (attention_mask b) None)
           (labels b)
       \<and> grads st' = accumulate fw (no_grads fw)
           (autograd fw (model st) (training st) (input_ids b) (attention_mask b) None (labels b))
       \<and> (optimizer st', model st') =
           AdamW_step fw (lr st) weight_decay (optimizer st) (grads st') (model st)
       \<and> last_epoch st' = last_epoch st + 1
       \<and> lr st' = base_lr * lr_lambda (num_warmup_steps st) (num_training_steps st) (last_epoch st + 1)
       \<and> (\<forall>g. train_step fw k b (st\<lparr>grads := g\<rparr>) = Inr st')"
  using train_step_fields [OF assms] train_step_grads_irrelevant [where fw = fw and k = k and b = b and st = st] assms
  by simp

theorem train_step_order_witness:
  "(case train_step demo_torch 1 demo_batch demo_env of
      Inl e \<Rightarrow> False
    | Inr st' \<Rightarrow> grads st' = 1 \<and> last_epoch st' = 1
        \<and> train_step demo_torch 1 demo_batch (demo_env\<lparr>grads := 7\<rparr>) = Inr st')"
proof -
  from demo_step obtain st' where s: "train_step demo_torch 1 demo_batch demo_env = Inr st'"
    by blast
  have "grads st' = 1 \<and> last_epoch st' = 1
      \<and> train_step demo_torch 1 demo_batch (demo_env\<lparr>grads := 7\<rparr>) = Inr st'"
    using train_step_order [OF s] by (simp add: demo_defs)
  with s show ?thesis by simp
qed

section \<open>The validation pass\<close>

text \<open>
  C8: a validation pass that completes leaves the parameters (and the gradient buffers
  and the optimizer) as they were, leaves the model in evaluation mode, calls the model
  once on every batch of the loader, each time in evaluation mode with gradient
  recording switched off, and returns the accuracy over the labels and predictions of
  the whole loader.
\<close>

theorem model_valid_frame:
  assumes "model_valid fw dl st = Inr (acc, st')"
  shows "model st' = model st \<and> grads st' = grads st \<and> optimizer st' = optimizer st
       \<and> training st' = False \<and> grad_enabled st' = grad_enabled st
       \<and> events_since st st' =
           map (\<lambda>b. Forward False False (input_ids b) (attention_mask b) None) dl
       \<and> (\<exists>qs. list_all2 (\<lambda>b q. argmax_dim1 (forward (BertModel fw) (model st) False
                                  (input_ids b) (attention_mask b) None) = Inr q) dl qs
               \<and> accuracy_score (concat (map labels dl)) (concat qs) = Inr acc)"
proof -
  from model_valid_Inr [OF assms] obtain qs where
    st': "st' = st\<lparr>training := False, trace := trace st @ map eval_call dl\<rparr>"
    and qs: "list_all2 (\<lambda>b q. argmax_dim1 (forward (BertModel fw) (model st) False
                                  (input_ids b) (attention_mask b) None) = Inr q) dl qs"
    and acc: "accuracy_score (concat (map labels dl)) (concat qs) = Inr acc"
    by blast
  have ev: "map eval_call dl = map (\<lambda>b. Forward False False (input_ids b) (attention_mask b) None) dl"
    by (simp add: eval_call_def)
  have "events_since st st' = map (\<lambda>b. Forward False False (input_ids b) (attention_mask b) None) dl"
    using st' ev by (simp add: events_since_def)
  then show ?thesis using st' qs acc by auto
qed

theorem model_valid_frame_witness:
  "model_valid demo_torch [demo_batch] demo_env = Inr (Fin 0, demo_env\<lparr>training := False,
      trace := [Forward False False [[1, 0], [0, 1]] [[1, 1], [1, 1]] None]\<rparr>)
   \<and> model (demo_env\<lparr>training := False,
      trace := [Forward False False [[1, 0], [0, 1]] [[1, 1], [1, 1]] None]\<rparr>) = model demo_env"
proof -
  have v: "model_valid demo_torch [demo_batch] demo_env = Inr (Fin 0, demo_env\<lparr>training := False,
      trace := [Forward False False [[1, 0], [0, 1]] [[1, 1], [1, 1]] None]\<rparr>)"
    by (simp add: run_defs demo_defs)
  show ?thesis
    using v model_valid_frame [OF v] by simp
qed

section \<open>Checkpoints\<close>

lemma model_train_split:
  assumes "model_train fw st = Inr st'" and "k < epochs st"
  shows "\<exists>s s'. epoch_loop fw [0..<k] (train_setup fw st) = Inr s \<and> train_epoch fw k s = Inr s'
            \<and> epoch_loop fw [Suc k..<epochs st] s' = Inr st'"
  using assms epoch_loop_split [of fw "epochs st" "train_setup fw st" st' k]
  by (simp add: model_train_def)

text \<open>
  C1: the best accuracy starts at 0.0. In every epoch \<open>k\<close> of a run that completes,
  the best checkpoint is written (once) if and only if the validation accuracy of that
  epoch is strictly greater than the best accuracy recorded before it, and the file then
  holds the parameters of that epoch; otherwise file and record stay as they were. The
  recorded best accuracy never decreases: from the start to the epoch, over the epoch,
  and from the epoch to the end of the run.
\<close>

theorem best_checkpoint_iff_improved:
  assumes init: "ModelTrainer_init m n tr va te env = Inr st"
    and run: "model_train fw st = Inr st'"
    and k: "k < n"
  shows "best_acc (train_setup fw st) = Fin 0
     \<and> (\<exists>s s1 s2 acc s'.
          epoch_loop fw [0..<k] (train_setup fw st) = Inr s
        \<and> train_batches fw (k + 1) (tr k)
            (s\<lparr>training := True, train_loss_sum := 0, train_accuracy := Fin 0, batch_index := 0\<rparr>) = Inr s1
        \<and> model_valid fw va s1 = Inr (acc, s2)
        \<and> train_epoch fw k s = Inr s'
        \<and> count_list (events_since s s') (Save best_model_path) =
            (if float_gt acc (best_acc s) then 1 else 0)
        \<and> files s' best_model_path =
            (if float_gt acc (best_acc s) then Some (model s') else files s best_model_path)
        \<and> best_acc s' = (if float_gt acc (best_acc s) then acc else best_acc s)
        \<and> float_le (Fin 0) (best_acc s)
        \<and> float_le (best_acc s) (best_acc s')
        \<and> float_le (best_acc s') (best_acc st'))"
proof -
  have b0: "best_acc (train_setup fw st) = Fin 0"
    using ModelTrainer_init_Inr(1) [OF init] by (simp add: train_setup_fields)
  have n: "epochs st = n"
    using ModelTrainer_init_Inr(2) [OF init] .
  from model_train_split [OF run] k n obtain s s' where
    pre: "epoch_loop fw [0..<k] (train_setup fw st) = Inr s"
    and ep: "train_epoch fw k s = Inr s'"
    and post: "epoch_loop fw [Suc k..<epochs st] s' = Inr st'"
    by blast
  have ld: "train_loader s = tr" "valid_loader s = va"
    using epoch_loop_frame [OF pre] ModelTrainer_init_Inr(6,7) [OF init]
    by (simp_all add: train_setup_fields)
  have le0: "float_le (Fin 0) (best_acc s)"
    using epoch_loop_best [OF pre, of "Fin 0"] b0 by simp
  have le1: "float_le (best_acc s) (best_acc s')"
    using train_epoch_best [OF ep le0] .
  have le2: "float_le (best_acc s') (best_acc st')"
    using epoch_loop_best [OF post le1] .
  from train_epoch_summary [OF ep] obtain tevs acc s1 s2 where
    s1: "train_batches fw (k + 1) (train_loader s k)
        (s\<lparr>training := True, train_loss_sum := 0, train_accuracy := Fin 0, batch_index := 0\<rparr>) = Inr s1"
    and v: "model_valid fw (valid_loader s) s1 = Inr (acc, s2)"
    and tevs: "list_all step_event tevs"
    and tr: "trace s' = trace s @ tevs @ map eval_call (valid_loader s)
         @ [AddScalar ''valid accuracy'' acc (k + 1)]
         @ (if float_gt acc (best_acc s) then [Save best_model_path] else [])
         @ [Save most_model_path]"
    and b: "best_acc s' = (if float_gt acc (best_acc s) then acc else best_acc s)"
    and f: "files s' best_model_path =
         (if float_gt acc (best_acc s) then Some (model s') else files s best_model_path)"
    by blast
  have ev: "events_since s s' = tevs @ map eval_call (valid_loader s)
         @ [AddScalar ''valid accuracy'' acc (k + 1)]
         @ (if float_gt acc (best_acc s) then [Save best_model_path] else [])
         @ [Save most_model_path]"
    using tr by (rule events_since_append)
  have cnt: "count_list (events_since s s') (Save best_model_path) =
            (if float_gt acc (best_acc s) then 1 else 0)"
    unfolding ev using step_events_no_save [OF tevs] eval_calls_no_save by simp
  show ?thesis
    using b0 pre s1 v ep cnt f b le0 le1 le2 unfolding ld by blast
qed

theorem best_checkpoint_iff_improved_witness:
  "ModelTrainer_init demo_model 2 (\<lambda>i. [demo_batch]) [demo_batch] [demo_batch] demo_env
     = Inr demo_trainer
   \<and> (1 :: nat) < 2
   \<and> (case model_train demo_torch demo_trainer of
        Inl e \<Rightarrow> False
      | Inr st' \<Rightarrow>
          (\<exists>s s'. epoch_loop demo_torch [0..<1] (train_setup demo_torch demo_trainer) = Inr s
             \<and> train_epoch demo_torch 1 s = Inr s'
             \<and> float_le (Fin 0) (best_acc s) \<and> float_le (best_acc s) (best_acc s')
             \<and> float_le (best_acc s') (best_acc st')))"
proof -
  from demo_run obtain st' where run: "model_train demo_torch demo_trainer = Inr st'"
    by blast
  have k: "(1 :: nat) < 2" by simp
  from best_checkpoint_iff_improved [OF demo_init run k] obtain s s' where
    "epoch_loop demo_torch [0..<1] (train_setup demo_torch demo_trainer) = Inr s"
    "train_epoch demo_torch 1 s = Inr s'"
    "float_le (Fin 0) (best_acc s)" "float_le (best_acc s) (best_acc s')"
    "float_le (best_acc s') (best_acc st')"
    by blast
  then have "\<exists>s s'. epoch_loop demo_torch [0..<1] (train_setup demo_torch demo_trainer) = Inr s
             \<and> train_epoch demo_torch 1 s = Inr s'
             \<and> float_le (Fin 0) (best_acc s) \<and> float_le (best_acc s) (best_acc s')
             \<and> float_le (best_acc s') (best_acc st')"
    by blast
  with demo_init run k show ?thesis by simp
qed

text \<open>
  C6: in every epoch \<open>k\<close> of a run that completes, whatever the validation accuracy,
  the most recent checkpoint is written exactly once; the write is the last action of
  the epoch and the file holds the parameters at the end of the epoch. Over the whole
  run it is written as many times as there are epochs.
\<close>

theorem most_recent_checkpoint_every_epoch:
  assumes run: "model_train fw st = Inr st'" and k: "k < epochs st"
  shows "(\<exists>s s'. epoch_loop fw [0..<k] (train_setup fw st) = Inr s
            \<and> train_epoch fw k s = Inr s'
            \<and> count_list (events_since s s') (Save most_model_path) = 1
            \<and> last (trace s') = Save most_model_path
            \<and> files s' most_model_path = Some (model s'))
       \<and> count_list (events_since st st') (Save most_model_path) = epochs st"
proof -
  from model_train_split [OF run k] obtain s s' where
    pre: "epoch_loop fw [0..<k] (train_setup fw st) = Inr s"
    and ep: "train_epoch fw k s = Inr s'"
    by blast
  from train_epoch_summary [OF ep] obtain tevs acc where
    tr: "trace s' = trace s @ tevs @ map eval_call (valid_loader s)
         @ [AddScalar ''valid accuracy'' acc (k + 1)]
         @ (if float_gt acc (best_acc s) then [Save best_model_path] else [])
         @ [Save most_model_path]"
    and f: "files s' most_model_path = Some (model s')"
    by blast
  have lst: "last (trace s') = Save most_model_path"
    unfolding tr by simp
  obtain evs where evs: "trace s' = trace s @ evs" "count_list evs (Save most_model_path) = 1"
    using train_epoch_events [OF ep] by blast
  have one: "count_list (events_since s s') (Save most_model_path) = 1"
    using events_since_append [OF evs(1)] evs(2) by simp
  have loop: "epoch_loop fw [0..<epochs st] (train_setup fw st) = Inr st'"
    using run by (simp add: model_train_def)
  obtain all where all: "trace st' = trace (train_setup fw st) @ all"
    "count_list all (Save most_model_path) = length [0..<epochs st]"
    using epoch_loop_events [OF loop] by blast
  have "trace st' = trace st @ all"
    using all(1) by (simp add: train_setup_fields)
  then have total: "count_list (events_since st st') (Save most_model_path) = epochs st"
    using events_since_append all(2) by fastforce
  show ?thesis
    using pre ep one lst f total by blast
qed

theorem most_recent_checkpoint_every_epoch_witness:
  "(1 :: nat) < epochs demo_trainer
   \<and> (case model_train demo_torch demo_trainer of
        Inl e \<Rightarrow> False
      | Inr st' \<Rightarrow> count_list (events_since demo_trainer st') (Save most_model_path) = 2)"
proof -
  from demo_run obtain st' where run: "model_train demo_torch demo_trainer = Inr st'"
    by blast
  have e: "epochs demo_trainer = 2"
    by (simp add: demo_defs)
  have k: "(1 :: nat) < epochs demo_trainer"
    using e by simp
  have "count_list (events_since demo_trainer st') (Save most_model_path) = 2"
    using most_recent_checkpoint_every_epoch [OF run k] e by simp
  with run k show ?thesis by simp
qed

section \<open>Segment ids and the test phase\<close>

lemma predict_batches_segment_ids:
  "predict_batches fw (map (\<lambda>b. b\<lparr>token_type_ids := f b\<rparr>) bs) t p st = predict_batches fw bs t p st"
proof (induction bs arbitrary: t p st)
  case Nil
  show ?case by simp
next
  case (Cons b bs)
  show ?case
    by (simp add: Let_def call_model_def Cons.IH split: prod.splits)
qed

lemma train_step_segment_ids:
  "train_step fw k (b\<lparr>token_type_ids := segs\<rparr>) st = train_step fw k b st"
  by (simp add: train_step_def Let_def)

lemma call_model_encoder:
  "fst (call_model fw ids am segs st) =
     linear (classifier_weight (model st)) (classifier_bias (model st))
       (snd (BertModel fw (bert_weights (model st)) (training st) ids am segs))"
  by (simp add: call_model_def forward_def)

lemma model_test_Inr:
  assumes "model_test fw st = Inr st'"
  shows "\<exists>sd qs acc. files st best_model_path = Some sd
     \<and> st' = st\<lparr>model := sd, training := False,
               trace := trace st @ Load best_model_path # map eval_call (test_loader st)
                 @ [PrintTestAccuracy acc,
                    PrintReport (classification_report (concat (map labels (test_loader st)))
                      (concat qs))]\<rparr>
     \<and> list_all2 (\<lambda>b q. argmax_dim1 (forward (BertModel fw) sd False
                          (input_ids b) (attention_mask b) None) = Inr q) (test_loader st) qs
     \<and> accuracy_score (concat (map labels (test_loader st))) (concat qs) = Inr acc"
proof -
  from assms obtain sd where f: "files st best_model_path = Some sd"
    by (auto simp: model_test_def torch_load_def and_then_Inr split: option.splits)
  let ?s = "(emit (Load best_model_path) st)\<lparr>model := sd, training := False, grad_enabled := False\<rparr>"
  have tl: "test_loader ?s = test_loader st"
    by (simp add: emit_def)
  from assms f obtain t p s1 acc where
    pb: "predict_batches fw (test_loader st) [] [] ?s = Inr ((t, p), s1)"
    and acc: "accuracy_score t p = Inr acc"
    and st': "st' = emit (PrintReport (classification_report t p))
               (emit (PrintTestAccuracy acc) (s1\<lparr>grad_enabled := grad_enabled st\<rparr>))"
    by (auto simp: model_test_def torch_load_def Let_def and_then_Inr emit_def)
  from predict_batches_Inr [OF pb] obtain qs where
    s1: "s1 = ?s\<lparr>trace := trace ?s @
             map (\<lambda>b. Forward (training ?s) (grad_enabled ?s) (input_ids b) (attention_mask b) None)
               (test_loader st)\<rparr>"
    and t: "t = [] @ concat (map labels (test_loader st))"
    and qs: "list_all2 (\<lambda>b q. argmax_dim1 (forward (BertModel fw) (model ?s) (training ?s)
                                  (input_ids b) (attention_mask b) None) = Inr q) (test_loader st) qs"
    and p: "p = [] @ concat qs"
    by blast
  have a: "st' = st\<lparr>model := sd, training := False,
               trace := trace st @ Load best_model_path # map eval_call (test_loader st)
                 @ [PrintTestAccuracy acc,
                    PrintReport (classification_report (concat (map labels (test_loader st)))
                      (concat qs))]\<rparr>"
    using st' s1 t p by (simp add: emit_def eval_call_def)
  have b: "list_all2 (\<lambda>b q. argmax_dim1 (forward (BertModel fw) sd False
                          (input_ids b) (attention_mask b) None) = Inr q) (test_loader st) qs"
    using qs by (simp add: emit_def)
  show ?thesis using f a b acc t p by auto
qed

lemma model_train_events:
  assumes "model_train fw st = Inr st'"
  shows "\<exists>evs. trace st' = trace st @ evs \<and> list_all segment_free evs"
proof -
  have "epoch_loop fw [0..<epochs st] (train_setup fw st) = Inr st'"
    using assms by (simp add: model_train_def)
  from epoch_loop_events [OF this] show ?thesis
    by (auto simp: train_setup_fields)
qed

text \<open>
  C9: in training, in validation and in the test phase every call of the model passes
  input ids and attention mask and no segment ids, so the encoder is called with
  \<open>token_type_ids = None\<close>; the segment ids of a batch, although read in the training
  step, have no influence on the step or on an evaluation pass.
\<close>

theorem model_calls_without_segment_ids:
  "(model_train fw st = Inr s1 \<longrightarrow> list_all segment_free (events_since st s1))
 \<and> (model_valid fw dl st = Inr (acc, s2) \<longrightarrow> list_all segment_free (events_since st s2))
 \<and> (model_test fw st = Inr s3 \<longrightarrow> list_all segment_free (events_since st s3))
 \<and> fst (call_model fw ids am None st) =
     linear (classifier_weight (model st)) (classifier_bias (model st))
       (snd (BertModel fw (bert_weights (model st)) (training st) ids am None))
 \<and> train_step fw k (b\<lparr>token_type_ids := segs\<rparr>) st = train_step fw k b st
 \<and> model_valid fw (map (\<lambda>b. b\<lparr>token_type_ids := f b\<rparr>) dl) st = model_valid fw dl st"
proof -
  have a: "model_train fw st = Inr s1 \<longrightarrow> list_all segment_free (events_since st s1)"
    using model_train_events [of fw st s1] events_since_append by fastforce
  have b: "model_valid fw dl st = Inr (acc, s2) \<longrightarrow> list_all segment_free (events_since st s2)"
  proof
    assume v: "model_valid fw dl st = Inr (acc, s2)"
    have "trace s2 = trace st @ map eval_call dl"
      using model_valid_Inr [OF v] by simp
    from events_since_append [OF this] show "list_all segment_free (events_since st s2)"
      using eval_calls_segment_free by simp
  qed
  have c: "model_test fw st = Inr s3 \<longrightarrow> list_all segment_free (events_since st s3)"
  proof
    assume t: "model_test fw st = Inr s3"
    from model_test_Inr [OF t] obtain evs where
      "trace s3 = trace st @ Load best_model_path # map eval_call (test_loader st) @ evs"
      "list_all segment_free evs"
      by auto
    then have "trace s3 = trace st @ (Load best_model_path # map eval_call (test_loader st) @ evs)"
      "list_all segment_free (Load best_model_path # map eval_call (test_loader st) @ evs)"
      using eval_calls_segment_free by simp_all
    then show "list_all segment_free (events_since st s3)"
      using events_since_append by metis
  qed
  have d: "model_valid fw (map (\<lambda>b. b\<lparr>token_type_ids := f b\<rparr>) dl) st = model_valid fw dl st"
    by (simp add: model_valid_def Let_def predict_batches_segment_ids)
  show ?thesis
    using a b c d call_model_encoder train_step_segment_ids by blast
qed

theorem model_calls_without_segment_ids_witness:
  "(case model_train demo_torch stale_trainer of
      Inl e \<Rightarrow> False
    | Inr s1 \<Rightarrow> list_all segment_free (events_since stale_trainer s1))
   \<and> (case model_valid demo_torch [demo_batch] stale_trainer of
        Inl e \<Rightarrow> False
      | Inr (acc, s2) \<Rightarrow> list_all segment_free (events_since stale_trainer s2)
          \<and> events_since stale_trainer s2 \<noteq> [])
   \<and> (case model_test demo_torch stale_trainer of
        Inl e \<Rightarrow> False
      | Inr s3 \<Rightarrow> list_all segment_free (events_since stale_trainer s3))"
proof -
  from stale_run obtain s1 acc s2 s3 where
    t: "model_train demo_torch stale_trainer = Inr s1"
    and v: "model_valid demo_torch [demo_batch] stale_trainer = Inr (acc, s2)"
    and e: "model_test demo_torch stale_trainer = Inr s3"
    and n: "events_since stale_trainer s2 \<noteq> []"
    by blast
  have "list_all segment_free (events_since stale_trainer s1)"
    "list_all segment_free (events_since stale_trainer s2)"
    "list_all segment_free (events_since stale_trainer s3)"
    using model_calls_without_segment_ids
      [of demo_torch stale_trainer s1 "[demo_batch]" acc s2 s3] t v e
    by simp_all
  with t v e n show ?thesis by simp
qed

lemma classification_report_rows:
  "map class_label (classification_report y_true y_pred) = sort (remdups (y_true @ y_pred))"
  "row \<in> set (classification_report y_true y_pred) \<Longrightarrow>
     support row = count_list y_true (class_label row)
   \<and> precision row = ratio (hits (class_label row) y_true y_pred) (count_list y_pred (class_label row))
   \<and> recall row = ratio (hits (class_label row) y_true y_pred) (count_list y_true (class_label row))"
  by (auto simp: classification_report_def report_for_def Let_def comp_def)

text \<open>
  C4: when training has completed and the test phase completes, the test phase has
  loaded the file of the best checkpoint (and no other) into the model, has called the
  model exactly once on every batch of the test loader, in order, in evaluation mode
  with gradient recording switched off, and has then reported the accuracy over the
  whole test set and the per-class report of precision, recall, F1 and support.
\<close>

theorem test_phase_uses_best_checkpoint:
  assumes train: "model_train fw st = Inr st1" and test: "model_test fw st1 = Inr st2"
  shows "\<exists>sd qs acc. files st1 best_model_path = Some sd \<and> model st2 = sd
      \<and> events_since st1 st2 =
          Load best_model_path
          # map (\<lambda>b. Forward False False (input_ids b) (attention_mask b) None) (test_loader st)
          @ [PrintTestAccuracy acc,
             PrintReport (classification_report (concat (map labels (test_loader st))) (concat qs))]
      \<and> list_all2 (\<lambda>b q. argmax_dim1 (forward (BertModel fw) sd False
                           (input_ids b) (attention_mask b) None) = Inr q) (test_loader st) qs
      \<and> accuracy_score (concat (map labels (test_loader st))) (concat qs) = Inr acc"
proof -
  have "epoch_loop fw [0..<epochs st] (train_setup fw st) = Inr st1"
    using train by (simp add: model_train_def)
  from epoch_loop_frame [OF this] have tl: "test_loader st1 = test_loader st"
    by (simp add: train_setup_fields)
  from model_test_Inr [OF test] obtain sd qs acc where
    f: "files st1 best_model_path = Some sd"
    and st2: "st2 = st1\<lparr>model := sd, training := False,
               trace := trace st1 @ Load best_model_path # map eval_call (test_loader st1)
                 @ [PrintTestAccuracy acc,
                    PrintReport (classification_report (concat (map labels (test_loader st1)))
                      (concat qs))]\<rparr>"
    and qs: "list_all2 (\<lambda>b q. argmax_dim1 (forward (BertModel fw) sd False
                          (input_ids b) (attention_mask b) None) = Inr q) (test_loader st1) qs"
    and acc: "accuracy_score (concat (map labels (test_loader st1))) (concat qs) = Inr acc"
    by blast
  have ev: "map eval_call (test_loader st) =
      map (\<lambda>b. Forward False False (input_ids b) (attention_mask b) None) (test_loader st)"
    by (simp add: eval_call_def)
  have m: "model st2 = sd"
    using st2 by simp
  have "events_since st1 st2 =
          Load best_model_path
          # map (\<lambda>b. Forward False False (input_ids b) (attention_mask b) None) (test_loader st)
          @ [PrintTestAccuracy acc,
             PrintReport (classification_report (concat (map labels (test_loader st))) (concat qs))]"
    using st2 tl ev by (simp add: events_since_def)
  then show ?thesis
    using f m qs acc unfolding tl by blast
qed

theorem test_phase_uses_best_checkpoint_witness:
  "(case model_train demo_torch demo_trainer of
      Inl e \<Rightarrow> False
    | Inr st1 \<Rightarrow>
        (case model_test demo_torch st1 of
           Inl e \<Rightarrow> False
         | Inr st2 \<Rightarrow> files st1 best_model_path = Some (model st2)
             \<and> files st1 most_model_path \<noteq> files st1 best_model_path
             \<and> model st2 \<noteq> model st1))"
proof -
  from demo_script obtain st1 st2 where
    t: "model_train demo_torch demo_trainer = Inr st1"
    and e: "model_test demo_torch st1 = Inr st2"
    and d: "files st1 most_model_path \<noteq> files st1 best_model_path" "model st2 \<noteq> model st1"
    by blast
  have "files st1 best_model_path = Some (model st2)"
    using test_phase_uses_best_checkpoint [OF t e] by auto
  with t e d show ?thesis by simp
qed

section \<open>The learning-rate schedule\<close>

lemma lr_lambda_warmup:
  "k < w \<Longrightarrow> lr_lambda w t k = real k / real w"
  by (simp add: lr_lambda_def max_def)

lemma lr_lambda_cosine:
  "w \<le> k \<Longrightarrow> lr_lambda w t k = (1 + cos (pi * real (k - w) / real (max 1 (t - w)))) / 2"
proof -
  assume "w \<le> k"
  have "0 \<le> 1 + cos (pi * real (k - w) / real (max 1 (t - w)))"
    using cos_ge_minus_one [of "pi * real (k - w) / real (max 1 (t - w))"] by linarith
  then show ?thesis
    using \<open>w \<le> k\<close> by (simp add: lr_lambda_def Let_def max_def)
qed

lemma lr_lambda_peak: "lr_lambda w t w = 1"
  by (simp add: lr_lambda_cosine)

lemma lr_lambda_end: "w < t \<Longrightarrow> lr_lambda w t t = 0"
proof -
  assume "w < t"
  then have m: "max 1 (t - w) = t - w" and p: "0 < real (t - w)"
    by simp_all
  have "real (t - w) \<noteq> 0"
    using p by linarith
  then have q: "pi * real (t - w) / real (t - w) = pi"
    by (rule nonzero_mult_div_cancel_right)
  have "lr_lambda w t t = (1 + cos (pi * real (t - w) / real (t - w))) / 2"
    using \<open>w < t\<close> lr_lambda_cosine [of w t t] m by simp
  then show ?thesis
    unfolding q by simp
qed

lemma lr_lambda_start: "0 < w \<Longrightarrow> lr_lambda w t 0 = 0"
  by (simp add: lr_lambda_warmup)

lemma train_step_lr_events:
  assumes "train_step fw k b st = Inr st'"
    and "last_epoch st = (k - 1) * steps st + batch_index st"
  shows "last_epoch st' = (k - 1) * steps st' + batch_index st'
       \<and> (\<exists>evs. trace st' = trace st @ evs
               \<and> list_all (lr_event (num_warmup_steps st) (num_training_steps st)) evs)"
proof -
  have a: "last_epoch st' = (k - 1) * steps st' + batch_index st'"
    using train_step_fields(4,6) [OF assms(1)] train_step_frame(6) [OF assms(1)] assms(2) by simp
  have b: "lr st' = base_lr * lr_lambda (num_warmup_steps st) (num_training_steps st)
             ((k - 1) * steps st + batch_index st')"
    using train_step_fields(5,6) [OF assms(1)] assms(2) by simp
  show ?thesis
    using a b train_step_fields(7) [OF assms(1)] by simp
qed

lemma train_batches_lr_events:
  assumes "train_batches fw k bs st = Inr st'"
    and "last_epoch st = (k - 1) * steps st + batch_index st"
  shows "\<exists>evs. trace st' = trace st @ evs
               \<and> list_all (lr_event (num_warmup_steps st) (num_training_steps st)) evs"
  using assms
proof (induction bs arbitrary: st)
  case Nil
  then show ?case by simp
next
  case (Cons b bs)
  from Cons.prems obtain s where s: "train_step fw k b st = Inr s"
    and rest: "train_batches fw k bs s = Inr st'"
    by (auto simp: and_then_Inr)
  from train_step_lr_events [OF s Cons.prems(2)] obtain e1 where
    inv: "last_epoch s = (k - 1) * steps s + batch_index s"
    and e1: "trace s = trace st @ e1"
      "list_all (lr_event (num_warmup_steps st) (num_training_steps st)) e1"
    by blast
  from Cons.IH [OF rest inv] obtain e2 where
    e2: "trace st' = trace s @ e2"
      "list_all (lr_event (num_warmup_steps s) (num_training_steps s)) e2"
    by blast
  have "trace st' = trace st @ (e1 @ e2)
      \<and> list_all (lr_event (num_warmup_steps st) (num_training_steps st)) (e1 @ e2)"
    using e1 e2 train_step_frame(7,8) [OF s] by simp
  then show ?case by blast
qed

lemma eval_calls_lr_events: "list_all (lr_event w t) (map eval_call bs)"
  by (induction bs) (simp_all add: eval_call_def)

lemma train_epoch_lr_events:
  assumes "train_epoch fw i st = Inr st'" and "last_epoch st = i * steps st"
  shows "\<exists>evs. trace st' = trace st @ evs
               \<and> list_all (lr_event (num_warmup_steps st) (num_training_steps st)) evs"
proof -
  let ?s0 = "st\<lparr>training := True, train_loss_sum := 0, train_accuracy := Fin 0, batch_index := 0\<rparr>"
  from train_epoch_Inr [OF assms(1)] obtain s1 s2 acc where
    s1: "train_batches fw (i + 1) (train_loader st i) ?s0 = Inr s1"
    and v: "model_valid fw (valid_loader st) s1 = Inr (acc, s2)"
    and st': "st' = checkpoint acc (emit (AddScalar ''valid accuracy'' acc (i + 1)) s2)"
    by blast
  have "last_epoch ?s0 = (i + 1 - 1) * steps ?s0 + batch_index ?s0"
    using assms(2) by simp
  from train_batches_lr_events [OF s1 this] obtain tevs where
    tevs: "trace s1 = trace st @ tevs"
      "list_all (lr_event (num_warmup_steps st) (num_training_steps st)) tevs"
    by auto
  have s2: "s2 = s1\<lparr>training := False, trace := trace s1 @ map eval_call (valid_loader st)\<rparr>"
    using model_valid_Inr [OF v] by blast
  let ?rest = "map eval_call (valid_loader st) @ [AddScalar ''valid accuracy'' acc (i + 1)]
      @ (if float_gt acc (best_acc (emit (AddScalar ''valid accuracy'' acc (i + 1)) s2))
         then [Save best_model_path] else []) @ [Save most_model_path]"
  have tr: "trace st' = trace st @ (tevs @ ?rest)"
    using st' s2 tevs(1) by (simp add: checkpoint_fields emit_def)
  have "list_all (lr_event (num_warmup_steps st) (num_training_steps st)) (tevs @ ?rest)"
    using tevs(2) eval_calls_lr_events by simp
  with tr show ?thesis by blast
qed

lemma epoch_prefix_schedule:
  assumes "epoch_loop fw [0..<k] s0 = Inr s" and "last_epoch s0 = 0"
    and "\<forall>i<k. length (train_loader s0 i) = steps s0"
  shows "last_epoch s = k * steps s0
       \<and> (\<exists>evs. trace s = trace s0 @ evs
               \<and> list_all (lr_event (num_warmup_steps s0) (num_training_steps s0)) evs)"
  using assms
proof (induction k arbitrary: s)
  case 0
  then show ?case by simp
next
  case (Suc k)
  have "and_then (epoch_loop fw [0..<k] s0) (epoch_loop fw [k]) = Inr s"
    using Suc.prems(1) epoch_loop_append [of fw "[0..<k]" "[k]" s0] by simp
  then obtain sm where pre: "epoch_loop fw [0..<k] s0 = Inr sm"
    and ep: "train_epoch fw k sm = Inr s"
    by (auto simp: and_then_Inr)
  have len: "\<forall>i<k. length (train_loader s0 i) = steps s0"
    using Suc.prems(3) by simp
  from Suc.IH [OF pre Suc.prems(2) len] obtain e1 where
    le: "last_epoch sm = k * steps s0"
    and e1: "trace sm = trace s0 @ e1"
      "list_all (lr_event (num_warmup_steps s0) (num_training_steps s0)) e1"
    by blast
  have fr: "steps sm = steps s0" "train_loader sm = train_loader s0"
    "num_warmup_steps sm = num_warmup_steps s0" "num_training_steps sm = num_training_steps s0"
    using epoch_loop_frame [OF pre] by simp_all
  have le': "last_epoch sm = k * steps sm"
    using le fr by simp
  from train_epoch_lr_events [OF ep le'] obtain e2 where
    e2: "trace s = trace sm @ e2"
      "list_all (lr_event (num_warmup_steps sm) (num_training_steps sm)) e2"
    by blast
  have a: "last_epoch s = Suc k * steps s0"
    using train_epoch_frame [OF ep] le fr Suc.prems(3) by simp
  have "trace s = trace s0 @ (e1 @ e2)
      \<and> list_all (lr_event (num_warmup_steps s0) (num_training_steps s0)) (e1 @ e2)"
    using e1 e2 fr by simp
  with a show ?case by blast
qed

lemma train_setup_on_schedule: "on_schedule (train_setup fw st)"
  by (simp add: on_schedule_def train_setup_fields)

text \<open>
  C5, amended: in a run of at least two epochs, with at least one training step in each
  and the same number in every epoch, the schedule is built with warmup length \<open>S\<close>
  (the steps of an epoch) and total length \<open>E * S\<close>. The learning rate is 0 before the
  first step; after \<open>g\<close> scheduler steps it is the peak \<open>2e-5\<close> times \<open>g / S\<close> up to the end
  of the first epoch, where it is the peak, and from there on the peak times
  \<open>(1 + cos (pi * (g - S) / (E * S - S))) / 2\<close>; every learning rate logged during the run
  is the one of this schedule at its global step, and after the last training step the
  learning rate is 0.
\<close>

theorem warmup_cosine_schedule:
  assumes run: "model_train fw st = Inr st'"
    and E: "2 \<le> epochs st" and S: "1 \<le> steps st"
    and len: "\<forall>i<epochs st. length (train_loader st i) = steps st"
  shows "num_warmup_steps st' = steps st
       \<and> num_training_steps st' = epochs st * steps st
       \<and> lr (train_setup fw st) = 0
       \<and> (\<forall>g\<le>steps st. base_lr * lr_lambda (steps st) (epochs st * steps st) g
             = base_lr * real g / real (steps st))
       \<and> (\<forall>g\<ge>steps st. base_lr * lr_lambda (steps st) (epochs st * steps st) g
             = base_lr * (1 + cos (pi * real (g - steps st)
                 / real (epochs st * steps st - steps st))) / 2)
       \<and> (\<exists>s1. epoch_loop fw [0..<1] (train_setup fw st) = Inr s1
             \<and> last_epoch s1 = steps st \<and> lr s1 = base_lr)
       \<and> list_all (lr_event (steps st) (epochs st * steps st)) (events_since st st')
       \<and> last_epoch st' = epochs st * steps st
       \<and> lr st' = 0"
proof -
  let ?s0 = "train_setup fw st"
  let ?W = "steps st"
  let ?T = "epochs st * steps st"
  have loop: "epoch_loop fw [0..<epochs st] ?s0 = Inr st'"
    using run by (simp add: model_train_def)
  have WT: "?W < ?T"
  proof -
    have "1 * ?W < epochs st * ?W"
      using E S by (intro mult_strict_right_mono) simp_all
    then show ?thesis by simp
  qed
  have fr: "num_warmup_steps st' = ?W" "num_training_steps st' = ?T"
    using epoch_loop_frame [OF loop] by (simp_all add: train_setup_fields)
  have start: "lr ?s0 = 0"
    using S by (simp add: train_setup_fields lr_lambda_start)
  have rise: "\<forall>g\<le>?W. base_lr * lr_lambda ?W ?T g = base_lr * real g / real ?W"
  proof (intro allI impI)
    fix g assume "g \<le> ?W"
    then consider "g < ?W" | "g = ?W" by linarith
    then show "base_lr * lr_lambda ?W ?T g = base_lr * real g / real ?W"
    proof cases
      case 1
      then show ?thesis by (simp add: lr_lambda_warmup)
    next
      case 2
      then show ?thesis using S by (simp add: lr_lambda_peak)
    qed
  qed
  have "1 \<le> ?T - ?W"
    using WT by linarith
  then have m: "max 1 (?T - ?W) = ?T - ?W"
    by (rule max_absorb2)
  have decay: "\<forall>g\<ge>?W. base_lr * lr_lambda ?W ?T g
      = base_lr * (1 + cos (pi * real (g - ?W) / real (?T - ?W))) / 2"
    using lr_lambda_cosine [of ?W _ ?T] unfolding m by simp
  have len0: "\<forall>i<epochs st. length (train_loader ?s0 i) = steps ?s0"
    using len by (simp add: train_setup_fields)
  have l0: "last_epoch ?s0 = 0"
    by (simp add: train_setup_fields)
  from epoch_prefix_schedule [OF loop l0 len0] obtain evs where
    fin: "last_epoch st' = ?T"
    and evs: "trace st' = trace st @ evs" "list_all (lr_event ?W ?T) evs"
    by (auto simp: train_setup_fields)
  have logged: "list_all (lr_event ?W ?T) (events_since st st')"
    using events_since_append [OF evs(1)] evs(2) by simp
  have "on_schedule st'"
    using epoch_loop_frame [OF loop] train_setup_on_schedule by blast
  then have "lr st' = base_lr * lr_lambda ?W ?T ?T"
    using fr fin by (simp add: on_schedule_def)
  then have last: "lr st' = 0"
    using lr_lambda_end [OF WT] by simp
  have k0: "0 < epochs st" using E by simp
  from model_train_split [OF run k0] obtain s1 where
    ep: "train_epoch fw 0 ?s0 = Inr s1"
    by auto
  have one: "epoch_loop fw [0..<1] ?s0 = Inr s1"
    using ep by simp
  have l1: "last_epoch s1 = ?W"
    using train_epoch_frame [OF ep] len k0 by (simp add: train_setup_fields)
  have "on_schedule s1"
    using train_epoch_frame [OF ep] train_setup_on_schedule by blast
  then have "lr s1 = base_lr * lr_lambda ?W ?T ?W"
    using train_epoch_frame [OF ep] l1 by (simp add: on_schedule_def train_setup_fields)
  then have peak: "lr s1 = base_lr"
    by (simp add: lr_lambda_peak)
  show ?thesis
    using fr start rise decay one l1 peak logged fin last by blast
qed

theorem warmup_cosine_schedule_witness:
  "2 \<le> epochs demo_trainer \<and> 1 \<le> steps demo_trainer
   \<and> length (train_loader demo_trainer 0) = steps demo_trainer
   \<and> length (train_loader demo_trainer 1) = steps demo_trainer
   \<and> lr (train_setup demo_torch demo_trainer) = 0
   \<and> (case model_train demo_torch demo_trainer of
        Inl e \<Rightarrow> False
      | Inr st' \<Rightarrow> last_epoch st' = 2 \<and> lr st' = 0)"
proof -
  from demo_run obtain st' where run: "model_train demo_torch demo_trainer = Inr st'"
    by blast
  have e: "epochs demo_trainer = 2" and s: "steps demo_trainer = 1"
    and l: "train_loader demo_trainer = (\<lambda>i. [demo_batch])"
    by (simp_all add: demo_defs)
  have E: "2 \<le> epochs demo_trainer" and S: "1 \<le> steps demo_trainer"
    and len: "\<forall>i<epochs demo_trainer. length (train_loader demo_trainer i) = steps demo_trainer"
    using e s l by simp_all
  have "last_epoch st' = 2 \<and> lr st' = 0 \<and> lr (train_setup demo_torch demo_trainer) = 0"
    using warmup_cosine_schedule [OF run E S len] e s by simp
  with run E S l s show ?thesis by simp
qed

text \<open>
  C5 as stated fails for a single epoch: the warmup takes the whole run and nothing
  decays. With two training steps the learning rate logged at the last step is the peak,
  and the one the last update used is half the peak.
\<close>

theorem no_decay_with_one_epoch:
  "(case and_then
           (ModelTrainer_init demo_model 1 (\<lambda>i. [demo_batch, demo_batch]) [demo_batch] [demo_batch]
              demo_env)
           (model_train demo_torch) of
      Inl e \<Rightarrow> False
    | Inr s \<Rightarrow> epochs s = 1 \<and> steps s = 2 \<and> num_warmup_steps s = 2 \<and> num_training_steps s = 2
        \<and> last_epoch s = 2 \<and> lr s = 2 / 100000
        \<and> AddScalar ''learning rate'' (Fin (1 / 100000)) 1 \<in> set (trace s)
        \<and> AddScalar ''learning rate'' (Fin (2 / 100000)) 2 \<in> set (trace s))"
  by (simp add: run_defs demo_defs lr_lambda_def base_lr_def)

section \<open>A run without improvement\<close>

lemma valid_accuracies_append:
  "valid_accuracies (xs @ ys) = valid_accuracies xs @ valid_accuracies ys"
  by (induction xs rule: valid_accuracies.induct) simp_all

lemma step_events_valid_accuracies:
  "list_all step_event evs \<Longrightarrow> valid_accuracies evs = []"
  by (induction evs rule: valid_accuracies.induct) auto

lemma eval_calls_valid_accuracies: "valid_accuracies (map eval_call bs) = []"
  by (induction bs) (simp_all add: eval_call_def)

lemma train_epoch_accuracies:
  assumes "train_epoch fw i st = Inr st'"
  shows "\<exists>acc evs. trace st' = trace st @ evs \<and> valid_accuracies evs = [acc]
     \<and> count_list evs (Save best_model_path) = (if float_gt acc (best_acc st) then 1 else 0)
     \<and> best_acc st' = (if float_gt acc (best_acc st) then acc else best_acc st)
     \<and> files st' best_model_path =
         (if float_gt acc (best_acc st) then Some (model st') else files st best_model_path)"
proof -
  from train_epoch_summary [OF assms(1)] obtain tevs acc where
    tevs: "list_all step_event tevs"
    and tr: "trace st' = trace st @ tevs @ map eval_call (valid_loader st)
         @ [AddScalar ''valid accuracy'' acc (i + 1)]
         @ (if float_gt acc (best_acc st) then [Save best_model_path] else [])
         @ [Save most_model_path]"
    and b: "best_acc st' = (if float_gt acc (best_acc st) then acc else best_acc st)"
    and f: "files st' best_model_path =
         (if float_gt acc (best_acc st) then Some (model st') else files st best_model_path)"
    by blast
  let ?evs = "tevs @ map eval_call (valid_loader st)
         @ [AddScalar ''valid accuracy'' acc (i + 1)]
         @ (if float_gt acc (best_acc st) then [Save best_model_path] else [])
         @ [Save most_model_path]"
  have a: "valid_accuracies ?evs = [acc]"
    using step_events_valid_accuracies [OF tevs] eval_calls_valid_accuracies
    by (simp add: valid_accuracies_append)
  have c: "count_list ?evs (Save best_model_path) = (if float_gt acc (best_acc st) then 1 else 0)"
    using step_events_no_save [OF tevs] eval_calls_no_save by simp
  show ?thesis using tr a c b f by blast
qed

lemma epoch_loop_no_improvement:
  assumes "epoch_loop fw js st = Inr st'"
    and "\<forall>v\<in>set (valid_accuracies (events_since st st')). \<not> float_gt v (best_acc st)"
  shows "best_acc st' = best_acc st \<and> files st' best_model_path = files st best_model_path
       \<and> count_list (events_since st st') (Save best_model_path) = 0
       \<and> length (valid_accuracies (events_since st st')) = length js"
  using assms
proof (induction js arbitrary: st)
  case Nil
  then show ?case by (simp add: events_since_def)
next
  case (Cons j js)
  from Cons.prems(1) obtain s where s: "train_epoch fw j st = Inr s"
    and rest: "epoch_loop fw js s = Inr st'"
    by (auto simp: and_then_Inr)
  from train_epoch_accuracies [OF s] obtain acc e1 where
    e1: "trace s = trace st @ e1" "valid_accuracies e1 = [acc]"
    and c1: "count_list e1 (Save best_model_path) = (if float_gt acc (best_acc st) then 1 else 0)"
    and b1: "best_acc s = (if float_gt acc (best_acc st) then acc else best_acc st)"
    and f1: "files s best_model_path =
         (if float_gt acc (best_acc st) then Some (model s) else files st best_model_path)"
    by blast
  obtain e2 where e2: "trace st' = trace s @ e2"
    using epoch_loop_events [OF rest] by blast
  have ev: "events_since st st' = e1 @ e2" "events_since s st' = e2"
    using e1(1) e2 by (simp_all add: events_since_def)
  have no: "\<not> float_gt acc (best_acc st)"
    using Cons.prems(2) e1(2) unfolding ev by (simp add: valid_accuracies_append)
  have same: "best_acc s = best_acc st" "files s best_model_path = files st best_model_path"
    "count_list e1 (Save best_model_path) = 0"
    using no b1 f1 c1 by simp_all
  have "\<forall>v\<in>set (valid_accuracies (events_since s st')). \<not> float_gt v (best_acc s)"
    using Cons.prems(2) same(1) unfolding ev by (simp add: valid_accuracies_append)
  from Cons.IH [OF rest this] show ?case
    using same e1(2) unfolding ev by (simp add: valid_accuracies_append)
qed

text \<open>
  C10, amended: when no file exists at the path of the best checkpoint before the run
  and no epoch's validation accuracy is strictly greater than the initial best accuracy
  0.0, training never writes the best checkpoint, the file still does not exist when
  training has completed, and the test phase fails with the error of the missing file,
  which ends the run.
\<close>

theorem missing_best_checkpoint_fails_test:
  assumes init: "ModelTrainer_init m n tr va te env = Inr st"
    and fresh: "files env best_model_path = None"
    and run: "model_train fw st = Inr st1"
    and low: "\<forall>v\<in>set (valid_accuracies (events_since st st1)). \<not> float_gt v (Fin 0)"
  shows "length (valid_accuracies (events_since st st1)) = n
       \<and> count_list (events_since st st1) (Save best_model_path) = 0
       \<and> files st1 best_model_path = None
       \<and> model_test fw st1 = Inl (FileNotFoundError best_model_path)
       \<and> and_then (model_train fw st) (model_test fw) = Inl (FileNotFoundError best_model_path)"
proof -
  let ?s0 = "train_setup fw st"
  have loop: "epoch_loop fw [0..<epochs st] ?s0 = Inr st1"
    using run by (simp add: model_train_def)
  have ev: "events_since ?s0 st1 = events_since st st1"
    by (simp add: events_since_def train_setup_fields)
  have b0: "best_acc ?s0 = Fin 0"
    using ModelTrainer_init_Inr(1) [OF init] by (simp add: train_setup_fields)
  have f0: "files ?s0 best_model_path = None"
    using ModelTrainer_init_Inr(9) [OF init] fresh by (simp add: train_setup_fields)
  have "\<forall>v\<in>set (valid_accuracies (events_since ?s0 st1)). \<not> float_gt v (best_acc ?s0)"
    using low unfolding ev b0 .
  from epoch_loop_no_improvement [OF loop this]
  have a: "files st1 best_model_path = None"
    and c: "count_list (events_since st st1) (Save best_model_path) = 0"
    and l: "length (valid_accuracies (events_since st st1)) = n"
    using f0 ModelTrainer_init_Inr(2) [OF init] unfolding ev by simp_all
  have t: "model_test fw st1 = Inl (FileNotFoundError best_model_path)"
    using a by (simp add: model_test_def torch_load_def)
  show ?thesis
    using a c l t run by simp
qed

theorem missing_best_checkpoint_fails_test_witness:
  "ModelTrainer_init demo_model 2 (\<lambda>i. [demo_batch]) [hard_batch] [demo_batch] demo_env
     = Inr hard_trainer
   \<and> files demo_env best_model_path = None
   \<and> (case model_train demo_torch hard_trainer of
        Inl e \<Rightarrow> False
      | Inr st1 \<Rightarrow> valid_accuracies (events_since hard_trainer st1) = [Fin 0, Fin 0]
          \<and> model_test demo_torch st1 = Inl (FileNotFoundError best_model_path))"
proof -
  from hard_run obtain st1 where
    run: "model_train demo_torch hard_trainer = Inr st1"
    and accs: "valid_accuracies (events_since hard_trainer st1) = [Fin 0, Fin 0]"
    by blast
  have fresh: "files demo_env best_model_path = None"
    by (simp add: demo_defs)
  have low: "\<forall>v\<in>set (valid_accuracies (events_since hard_trainer st1)). \<not> float_gt v (Fin 0)"
    unfolding accs by simp
  have "model_test demo_torch st1 = Inl (FileNotFoundError best_model_path)"
    using missing_best_checkpoint_fails_test [OF hard_init fresh run low] by simp
  with hard_init fresh run accs show ?thesis by simp
qed

text \<open>
  C10 as stated fails when a best checkpoint of an earlier run is on disk: the same
  training (validation accuracy 0.0 in both epochs, nothing written to the best
  checkpoint) is followed by a test phase that loads the old file and completes.
\<close>

theorem stale_best_checkpoint_is_loaded:
  "(case script demo_torch demo_model (\<lambda>i. [demo_batch]) [hard_batch] [demo_batch] stale_env of
      Inl e \<Rightarrow> False
    | Inr s \<Rightarrow> valid_accuracies (trace s) = [Fin 0, Fin 0]
        \<and> count_list (trace s) (Save best_model_path) = 0
        \<and> count_list (trace s) (Load best_model_path) = 1
        \<and> model s = demo_model)"
  by (simp add: script_def run_defs demo_defs best_model_path_def most_model_path_def
      upt_rec numeral_2_eq_2)

end
